theory Spec2Isabelle
  imports Complex_Main "HOL-Library.Char_ord" "HOL-Library.List_Lexorder"
    "HOL-Library.Product_Lexorder"
begin

section \<open>Values stored by the persistence layer\<close>

text \<open>
  The layer under study is \<^verbatim>\<open>src/project/database.py\<close>: the class \<^verbatim>\<open>Database\<close>
  (session scoping, coin and pair bookkeeping, history pruning, batched writes, the
  socket.io relay) and the class \<^verbatim>\<open>TradeLog\<close>. The ORM classes it imports from
  \<^verbatim>\<open>.models\<close> are rows of six tables; Python floats are carried as payload only and
  never computed with, so they are reals here, and a nullable float is an option.
\<close>

type_synonym float = real

text \<open>
  A naive Python \<^verbatim>\<open>datetime\<close>. Python compares two of them field by field, and SQLite
  compares the ISO text it stores them as, which is the same order: the lexicographic
  order of \<open>dt_key\<close>.
\<close>

record datetime =
  year :: nat
  month :: nat
  day :: nat
  hour :: nat
  minute :: nat
  second :: nat
  microsecond :: nat

definition dt_key :: "datetime \<Rightarrow> nat \<times> nat \<times> nat \<times> nat \<times> nat \<times> nat \<times> nat" where
  "dt_key d = (year d, month d, day d, hour d, minute d, second d, microsecond d)"

definition dt_less :: "datetime \<Rightarrow> datetime \<Rightarrow> bool" where
  "dt_less a b \<longleftrightarrow> dt_key a < dt_key b"

datatype interval = MINUTELY | HOURLY | DAILY | WEEKLY

text \<open>
  \<^verbatim>\<open>TradeState\<close>: the code names \<^verbatim>\<open>ORDERED\<close> and \<^verbatim>\<open>COMPLETE\<close>; the entry state a new
  \<^verbatim>\<open>Trade\<close> starts in is set by its constructor in \<^verbatim>\<open>models/trade.py\<close>.
\<close>

datatype trade_state = INITIAL | ORDERED | COMPLETE

record coin =
  symbol :: string
  enabled :: bool

record pair =
  pair_id :: nat
  from_coin_id :: string
  to_coin_id :: string
  ratio :: "float option"

record current_coin =
  cc_id :: nat
  cc_coin_id :: string
  cc_datetime :: datetime

record coin_value =
  cv_id :: nat
  cv_coin_id :: string
  balance :: float
  usd_price :: float
  btc_price :: float
  cv_interval :: interval
  cv_datetime :: datetime

record scout_history =
  sh_id :: nat
  sh_pair_id :: nat
  sh_ratio_diff :: float
  sh_target_ratio :: float
  sh_current_coin_price :: float
  sh_other_coin_price :: float
  sh_datetime :: datetime

record trade =
  trade_id :: nat
  alt_coin_id :: string
  crypto_coin_id :: string
  selling :: bool
  trade_state :: trade_state
  alt_starting_balance :: "float option"
  alt_trade_amount :: "float option"
  crypto_starting_balance :: "float option"
  crypto_trade_amount :: "float option"
  trade_datetime :: datetime

record database =
  coins :: "coin list"
  pairs :: "pair list"
  current_coins :: "current_coin list"
  coin_values :: "coin_value list"
  scout_histories :: "scout_history list"
  trades :: "trade list"


section \<open>The process state\<close>

text \<open>
  Python exceptions are values: a call returns \<open>Inl e\<close> together with the state it
  left behind, since an exception does not undo the mutations made before it.
\<close>

datatype error =
  OperationalError
  | IntegrityError
  | UnmappedInstanceError
  | AttributeError
  | OverflowError
  | ValueError
  | SocketIOConnectionError
  | BodyError string

datatype db_op = OpExecute | OpFlush | OpCommit

datatype table = CoinT | PairT | CurrentCoinT | CoinValueT | ScoutHistoryT | TradeT

datatype entity =
  CoinE string
  | PairE nat
  | CurrentCoinE nat
  | TradeE nat

text \<open>
  What the layer does that is visible from outside, in the order it happens: calls on
  the SQLAlchemy session that end or release a transaction, statements that change
  \<^verbatim>\<open>coin_values\<close>, and the calls on the socket.io client and the logger made by the
  relay.
\<close>

datatype event =
  Commit
  | Rollback
  | Close
  | UpdateInterval interval
  | DeleteInterval interval datetime
  | Connect
  | Sleep
  | Warning
  | Emit table

text \<open>
  The in-memory ratio matrix (\<^verbatim>\<open>ratios.py\<close>, imported but not part of the sources) as
  \<^verbatim>\<open>commit_ratios\<close> uses it: \<^verbatim>\<open>get_dirty()\<close> is \<open>dirty\<close> (the cells in the order the
  collection is iterated), \<^verbatim>\<open>get_pair_id(i, j)\<close> is \<open>rm_pair_id\<close>, \<^verbatim>\<open>get(i, j)\<close> is
  \<open>rm_ratio\<close>.
\<close>

record ratios_manager =
  dirty :: "(nat \<times> nat) list"
  rm_pair_id :: "nat \<times> nat \<Rightarrow> nat"
  rm_ratio :: "nat \<times> nat \<Rightarrow> float"

text \<open>
  One \<^verbatim>\<open>Database\<close> object and its surroundings.
  \<^item> \<open>durable\<close> is what has been committed to the SQLite file.
  \<^item> \<open>working\<close> is the view of the session: \<^verbatim>\<open>session_factory\<close> is a
    \<^verbatim>\<open>scoped_session\<close>, so every \<^verbatim>\<open>self.session_factory()\<close> of one thread returns the
    same session, and \<open>working\<close> is \<open>durable\<close> plus whatever that session has written
    and not committed.
  \<^item> \<open>identity_map\<close> holds the objects attached to the session.
  \<^item> \<open>events\<close> is the trace described above.
  \<^item> \<open>client_connected\<close>, \<open>client_namespaces\<close> are \<^verbatim>\<open>socketio_client.connected\<close> and
    whether \<^verbatim>\<open>socketio_client.namespaces\<close> is non-empty.
  \<^item> \<open>ticks\<close> counts the readings of the wall clock taken so far.

  The remaining fields are the environment, which no operation writes:
  \<open>clock n\<close> is the value of the \<open>n\<close>-th call of \<^verbatim>\<open>datetime.now()\<close>;
  \<open>store_fault op\<close> says that the store refuses operations of kind \<open>op\<close>
  (they raise \<^verbatim>\<open>OperationalError\<close>); \<open>connect_refused\<close> says that
  \<^verbatim>\<open>socketio_client.connect\<close> raises \<^verbatim>\<open>ConnectionError\<close>; \<open>client_poll k\<close> is the pair
  (\<^verbatim>\<open>connected\<close>, \<^verbatim>\<open>namespaces\<close> non-empty) that the \<open>k\<close>-th test of the polling loop
  reads, the client being updated by its own thread; \<open>new_ratios_manager db\<close> is
  \<^verbatim>\<open>RatiosManager(pairs)\<close> for the pairs that the query \<^verbatim>\<open>Pair.enabled.is_(True)\<close> selects
  from \<open>db\<close> (the column and the constructor are declared outside the sources).
\<close>

record world =
  durable :: database
  working :: database
  identity_map :: "entity set"
  events :: "event list"
  client_connected :: bool
  client_namespaces :: bool
  ratios_manager :: "ratios_manager option"
  coin_stubs :: "string list"
  ticks :: nat
  clock :: "nat \<Rightarrow> datetime"
  store_fault :: "db_op \<Rightarrow> bool"
  connect_refused :: bool
  client_poll :: "nat \<Rightarrow> bool \<times> bool"
  new_ratios_manager :: "database \<Rightarrow> ratios_manager"

text \<open>
  The result of an operation: \<open>None\<close> when it never returns (the polling loop of the
  relay has no bound), otherwise the value or the exception, and the state.
\<close>

type_synonym 'a result = "((error + 'a) \<times> world) option"

definition emit_event :: "event \<Rightarrow> world \<Rightarrow> world" where
  "emit_event e w = w\<lparr>events := events w @ [e]\<rparr>"

text \<open>\<^verbatim>\<open>datetime.now()\<close>: the next reading of the clock.\<close>

definition now :: "world \<Rightarrow> datetime \<times> world" where
  "now w = (clock w (ticks w), w\<lparr>ticks := Suc (ticks w)\<rparr>)"

section \<open>The session\<close>

text \<open>
  Integer primary keys are assigned by SQLite: one more than the greatest key of the
  table.
\<close>

definition next_id :: "nat list \<Rightarrow> nat" where
  "next_id ids = Suc (fold max ids 0)"


text \<open>
  \<^verbatim>\<open>session.commit()\<close>. It raises when the store refuses it, and when the flush it
  performs violates the one primary key that callers choose themselves, the symbol of
  a coin; nothing becomes durable then. Otherwise the session's view becomes durable.
\<close>

definition session_commit :: "world \<Rightarrow> (error + unit) \<times> world" where
  "session_commit w =
     (if store_fault w OpCommit then (Inl OperationalError, w)
      else if \<not> distinct (map symbol (coins (working w))) then (Inl IntegrityError, w)
      else (Inr (), emit_event Commit (w\<lparr>durable := working w\<rparr>)))"

text \<open>
  \<^verbatim>\<open>session.close()\<close>: uncommitted work is abandoned and every object is detached.
\<close>

definition session_close :: "world \<Rightarrow> world" where
  "session_close w = emit_event Close (w\<lparr>working := durable w, identity_map := {}\<rparr>)"

text \<open>
  \<^verbatim>\<open>
  @contextmanager
  def db_session(self):
      session: Session = self.session_factory()
      yield session
      session.commit()
      session.close()
  \<close>
  The body of the \<^verbatim>\<open>with\<close> statement runs at the \<^verbatim>\<open>yield\<close>. The generator has no
  \<^verbatim>\<open>try\<close>: an exception of the body is thrown into it at the \<^verbatim>\<open>yield\<close> and leaves it
  at once, so neither \<^verbatim>\<open>commit\<close> nor \<^verbatim>\<open>close\<close> runs and the exception reaches the
  caller. A \<^verbatim>\<open>return\<close> inside the body is a normal exit.
\<close>

definition db_session :: "(world \<Rightarrow> 'a result) \<Rightarrow> world \<Rightarrow> 'a result" where
  "db_session body w =
     (case body w of
        None \<Rightarrow> None
      | Some (Inl e, w1) \<Rightarrow> Some (Inl e, w1)
      | Some (Inr a, w1) \<Rightarrow>
          (case session_commit w1 of
             (Inl e, w2) \<Rightarrow> Some (Inl e, w2)
           | (Inr u, w2) \<Rightarrow> Some (Inr a, session_close w2)))"

section \<open>Scout records\<close>




section \<open>Ratio matrix synchronisation\<close>

text \<open>
  Modelled from the spec: \<^verbatim>\<open>RatiosManager.commit()\<close> is in \<^verbatim>\<open>ratios.py\<close>, which is not
  part of the sources; the spec gives its contract: it clears the dirty set.
\<close>

definition rm_commit :: "ratios_manager \<Rightarrow> ratios_manager" where
  "rm_commit rm = rm\<lparr>dirty := []\<rparr>"

text \<open>
  \<^verbatim>\<open>UPDATE pairs SET ratio = :pair_ratio WHERE id = :pair_id\<close>, run once per parameter
  dictionary, in order.
\<close>

definition set_ratio :: "nat \<times> float \<Rightarrow> pair \<Rightarrow> pair" where
  "set_ratio param p = (if pair_id p = fst param then p\<lparr>ratio := Some (snd param)\<rparr> else p)"

definition update_ratios :: "(nat \<times> float) list \<Rightarrow> pair list \<Rightarrow> pair list" where
  "update_ratios params ps = fold (\<lambda>param. map (set_ratio param)) params ps"

definition execute_update_ratios :: "(nat \<times> float) list \<Rightarrow> world \<Rightarrow> unit result" where
  "execute_update_ratios params w =
     (if store_fault w OpExecute then Some (Inl OperationalError, w)
      else Some (Inr (), w\<lparr>working := (working w)\<lparr>pairs :=
             update_ratios params (pairs (working w))\<rparr>\<rparr>))"

text \<open>
  \<^verbatim>\<open>
  def commit_ratios(self):
      dirty_cells = self.ratios_manager.get_dirty()
      if len(dirty_cells) == 0:
          return
      ...
      with self.db_session() as session:
          session.execute(stmt, [{"pair_id": self.ratios_manager.get_pair_id(from_idx, to_idx),
                                  "pair_ratio": self.ratios_manager.get(from_idx, to_idx)}
                                 for from_idx, to_idx in dirty_cells])
      self.ratios_manager.commit()
  \<close>
  \<^verbatim>\<open>self.ratios_manager\<close> is \<^verbatim>\<open>None\<close> until \<^verbatim>\<open>set_coins\<close> has run. An exception that
  leaves the \<^verbatim>\<open>with\<close> block skips the last line.
\<close>

definition commit_ratios :: "world \<Rightarrow> unit result" where
  "commit_ratios w =
     (case ratios_manager w of
        None \<Rightarrow> Some (Inl AttributeError, w)
      | Some rm \<Rightarrow>
          if length (dirty rm) = 0 then Some (Inr (), w)
          else
            (case db_session
                    (execute_update_ratios
                       (map (\<lambda>cell. (rm_pair_id rm cell, rm_ratio rm cell)) (dirty rm))) w of
               None \<Rightarrow> None
             | Some (Inl e, w1) \<Rightarrow> Some (Inl e, w1)
             | Some (Inr u, w1) \<Rightarrow>
                 Some (Inr (), w1\<lparr>ratios_manager := map_option rm_commit (ratios_manager w1)\<rparr>)))"

section \<open>The relay to the gateway\<close>

text \<open>
  \<^verbatim>\<open>self.socketio_client.connect(API_GATEWAY, namespaces=["/backend"])\<close>: the attempt is
  recorded; it raises when the gateway refuses.
\<close>

definition client_connect :: "world \<Rightarrow> error + world" where
  "client_connect w =
     (if connect_refused w then Inl SocketIOConnectionError else Inr (emit_event Connect w))"

text \<open>
  \<^verbatim>\<open>
  while not self.socketio_client.connected or not self.socketio_client.namespaces:
      time.sleep(0.1)
  \<close>
  The loop has no bound. \<open>poll_connected poll k\<close> runs it from its \<open>k\<close>-th test on,
  reading the client through \<open>poll\<close>, and returns the number of the test that ended
  it.
\<close>

partial_function (option) poll_connected :: "(nat \<Rightarrow> bool \<times> bool) \<Rightarrow> nat \<Rightarrow> nat option" where
  "poll_connected poll k =
     (if \<not> fst (poll k) \<or> \<not> snd (poll k) then poll_connected poll (Suc k) else Some k)"

text \<open>
  \<^verbatim>\<open>
  def _api_session(self):
      if self.socketio_client.connected and self.socketio_client.namespaces:
          return True
      try:
          if not self.socketio_client.connected:
              self.socketio_client.connect(API_GATEWAY, namespaces=["/backend"])
          while ...: time.sleep(0.1)
          return True
      except SocketIOConnectionError:
          return False
  \<close>
\<close>

definition api_session :: "world \<Rightarrow> (bool \<times> world) option" where
  "api_session w =
     (if client_connected w \<and> client_namespaces w then Some (True, w)
      else
        (case (if \<not> client_connected w then client_connect w else Inr w) of
           Inl e \<Rightarrow> Some (False, w)
         | Inr w1 \<Rightarrow>
             (case poll_connected (client_poll w1) 0 of
                None \<Rightarrow> None
              | Some k \<Rightarrow>
                  Some (True, w1\<lparr>client_connected := True, client_namespaces := True,
                                 events := events w1 @ replicate k Sleep\<rparr>))))"

text \<open>
  \<^verbatim>\<open>
  def send_update(self, model):
      if not self._api_session():
          self.logger.warning(...)
          return
      self.socketio_client.emit("update", {"table": model.__tablename__, ...}, "/backend")
  \<close>
  The argument is represented by the table of the model.
\<close>

definition send_update :: "table \<Rightarrow> world \<Rightarrow> unit result" where
  "send_update t w =
     (case api_session w of
        None \<Rightarrow> None
      | Some (ok, w1) \<Rightarrow>
          if \<not> ok then Some (Inr (), emit_event Warning w1)
          else Some (Inr (), emit_event (Emit t) w1))"

text \<open>The events that are the outcome of one \<^verbatim>\<open>send_update\<close> call.\<close>

fun is_notification :: "event \<Rightarrow> bool" where
  "is_notification Warning = True"
| "is_notification (Emit t) = True"
| "is_notification e = False"

section \<open>Trade lifecycle\<close>

text \<open>
  Modelled from the spec: the constructor \<^verbatim>\<open>Trade(from_coin, to_coin, selling)\<close> is in
  \<^verbatim>\<open>models/trade.py\<close>, which is not part of the sources; by the spec a new trade is in
  \<^verbatim>\<open>INITIAL\<close>, carries a timestamp and has no balances yet.
\<close>

definition new_trade :: "string \<Rightarrow> string \<Rightarrow> bool \<Rightarrow> datetime \<Rightarrow> nat \<Rightarrow> trade" where
  "new_trade from_coin to_coin sell dt i =
     \<lparr>trade_id = i, alt_coin_id = from_coin, crypto_coin_id = to_coin, selling = sell,
      trade_state = INITIAL, alt_starting_balance = None, alt_trade_amount = None,
      crypto_starting_balance = None, crypto_trade_amount = None, trade_datetime = dt\<rparr>"

text \<open>
  \<^verbatim>\<open>session.add\<close> puts the object into the session's view under the key the flush
  will give it, and attaches it. \<^verbatim>\<open>session.flush\<close> raises when the store refuses it.
\<close>

definition session_add_trade :: "(nat \<Rightarrow> trade) \<Rightarrow> world \<Rightarrow> nat \<times> world" where
  "session_add_trade mk w =
     (let i = next_id (map trade_id (trades (working w)))
      in (i, w\<lparr>working := (working w)\<lparr>trades := trades (working w) @ [mk i]\<rparr>,
               identity_map := insert (TradeE i) (identity_map w)\<rparr>))"

definition session_flush :: "world \<Rightarrow> error + unit" where
  "session_flush w = (if store_fault w OpFlush then Inl OperationalError else Inr ())"

text \<open>
  A \<^verbatim>\<open>TradeLog\<close> keeps \<^verbatim>\<open>self.trade\<close>. The commit that ends \<^verbatim>\<open>__init__\<close> expires the
  attributes of that object and the close detaches it, so what the handle carries
  afterwards is its primary key.
\<close>

record trade_log =
  tl_trade :: nat

text \<open>
  \<^verbatim>\<open>
  def __init__(self, db, from_coin, to_coin, selling):
      with self.db.db_session() as session:
          self.trade = Trade(from_coin, to_coin, selling)
          session.add(self.trade)
          session.flush()
          self.db.send_update(self.trade)
  \<close>
\<close>

definition start_trade_log :: "string \<Rightarrow> string \<Rightarrow> bool \<Rightarrow> world \<Rightarrow> trade_log result" where
  "start_trade_log from_coin to_coin sell w =
     db_session (\<lambda>w0.
       let (dt, w1) = now w0;
           (i, w2) = session_add_trade (new_trade from_coin to_coin sell dt) w1
       in case session_flush w2 of
            Inl e \<Rightarrow> Some (Inl e, w2)
          | Inr u \<Rightarrow>
              (case send_update TradeT w2 of
                 None \<Rightarrow> None
               | Some (Inl e, w3) \<Rightarrow> Some (Inl e, w3)
               | Some (Inr u, w3) \<Rightarrow> Some (Inr \<lparr>tl_trade = i\<rparr>, w3))) w"

text \<open>
  \<^verbatim>\<open>session.merge(self.trade)\<close> loads the row with the handle's key and attaches it;
  the expired handle has no attribute values to copy onto it. No operation of the
  layer deletes a trade; for a key without a row the model stops with \<open>ValueError\<close>.
\<close>

definition merge_trade :: "nat \<Rightarrow> world \<Rightarrow> error + world" where
  "merge_trade i w =
     (case find (\<lambda>t. trade_id t = i) (trades (working w)) of
        None \<Rightarrow> Inl ValueError
      | Some t \<Rightarrow> Inr (w\<lparr>identity_map := insert (TradeE i) (identity_map w)\<rparr>))"

text \<open>Attribute assignments on the attached trade.\<close>

definition update_trade :: "nat \<Rightarrow> (trade \<Rightarrow> trade) \<Rightarrow> world \<Rightarrow> world" where
  "update_trade i f w =
     w\<lparr>working := (working w)\<lparr>trades :=
          map (\<lambda>t. if trade_id t = i then f t else t) (trades (working w))\<rparr>\<rparr>"

text \<open>
  \<^verbatim>\<open>
  def set_ordered(self, alt_starting_balance, crypto_starting_balance, alt_trade_amount):
      with self.db.db_session() as session:
          trade: Trade = session.merge(self.trade)
          trade.alt_starting_balance = alt_starting_balance
          trade.alt_trade_amount = alt_trade_amount
          trade.crypto_starting_balance = crypto_starting_balance
          trade.state = TradeState.ORDERED
          self.db.send_update(trade)
  \<close>
\<close>

definition set_ordered :: "trade_log \<Rightarrow> float \<Rightarrow> float \<Rightarrow> float \<Rightarrow> world \<Rightarrow> unit result" where
  "set_ordered tlog alt_start crypto_start alt_amount w =
     db_session (\<lambda>w0.
       case merge_trade (tl_trade tlog) w0 of
         Inl e \<Rightarrow> Some (Inl e, w0)
       | Inr w1 \<Rightarrow>
           send_update TradeT
             (update_trade (tl_trade tlog)
                (\<lambda>t. t\<lparr>alt_starting_balance := Some alt_start,
                        alt_trade_amount := Some alt_amount,
                        crypto_starting_balance := Some crypto_start,
                        trade_state := ORDERED\<rparr>) w1)) w"

text \<open>
  \<^verbatim>\<open>
  def set_complete(self, crypto_trade_amount):
      with self.db.db_session() as session:
          trade: Trade = session.merge(self.trade)
          trade.crypto_trade_amount = crypto_trade_amount
          trade.state = TradeState.COMPLETE
          self.db.send_update(trade)
  \<close>
\<close>

definition set_complete :: "trade_log \<Rightarrow> float \<Rightarrow> world \<Rightarrow> unit result" where
  "set_complete tlog crypto_amount w =
     db_session (\<lambda>w0.
       case merge_trade (tl_trade tlog) w0 of
         Inl e \<Rightarrow> Some (Inl e, w0)
       | Inr w1 \<Rightarrow>
           send_update TradeT
             (update_trade (tl_trade tlog)
                (\<lambda>t. t\<lparr>crypto_trade_amount := Some crypto_amount,
                        trade_state := COMPLETE\<rparr>) w1)) w"

section \<open>The current coin\<close>

datatype coin_arg = ByCoin coin | BySymbol string

text \<open>
  \<^verbatim>\<open>session.expunge(obj)\<close> detaches one object; called with \<^verbatim>\<open>None\<close> it raises
  \<^verbatim>\<open>UnmappedInstanceError\<close>, which is what happens in \<^verbatim>\<open>get_coin\<close> and
  \<^verbatim>\<open>get_current_coin\<close> when the coin looked up does not exist.
\<close>

definition session_expunge :: "entity \<Rightarrow> world \<Rightarrow> world" where
  "session_expunge e w = w\<lparr>identity_map := identity_map w - {e}\<rparr>"

definition session_attach :: "entity \<Rightarrow> world \<Rightarrow> world" where
  "session_attach e w = w\<lparr>identity_map := insert e (identity_map w)\<rparr>"

text \<open>
  \<^verbatim>\<open>
  def get_coin(self, coin: Union[Coin, str]):
      if isinstance(coin, Coin):
          return coin
      with self.db_session() as session:
          coin = session.get(Coin, coin)
          session.expunge(coin)
          return coin
  \<close>
\<close>

definition get_coin :: "coin_arg \<Rightarrow> world \<Rightarrow> coin result" where
  "get_coin arg w =
     (case arg of
        ByCoin c \<Rightarrow> Some (Inr c, w)
      | BySymbol s \<Rightarrow>
          db_session (\<lambda>w0.
            case find (\<lambda>c. symbol c = s) (coins (working w0)) of
              None \<Rightarrow> Some (Inl UnmappedInstanceError, w0)
            | Some c \<Rightarrow> Some (Inr c, session_expunge (CoinE s) (session_attach (CoinE s) w0))) w)"

text \<open>
  \<^verbatim>\<open>session.merge(coin)\<close> of a detached coin whose attributes are loaded: the row with
  its symbol takes the attribute values of the object, and a row is inserted when there
  is none.
\<close>

definition merge_coin :: "coin \<Rightarrow> world \<Rightarrow> world" where
  "merge_coin c w =
     session_attach (CoinE (symbol c))
       (w\<lparr>working := (working w)\<lparr>coins :=
            (if \<exists>r \<in> set (coins (working w)). symbol r = symbol c
             then map (\<lambda>r. if symbol r = symbol c then c else r) (coins (working w))
             else coins (working w) @ [c])\<rparr>\<rparr>)"

text \<open>
  Modelled from the spec: the constructor \<^verbatim>\<open>CurrentCoin(coin)\<close> is in
  \<^verbatim>\<open>models/current_coin.py\<close>, which is not part of the sources; by the spec the row is
  a pointer to the coin with the time of its creation.
\<close>

definition new_current_coin :: "coin \<Rightarrow> datetime \<Rightarrow> nat \<Rightarrow> current_coin" where
  "new_current_coin c dt i = \<lparr>cc_id = i, cc_coin_id = symbol c, cc_datetime = dt\<rparr>"

definition session_add_current_coin :: "(nat \<Rightarrow> current_coin) \<Rightarrow> world \<Rightarrow> world" where
  "session_add_current_coin mk w =
     (let i = next_id (map cc_id (current_coins (working w)))
      in w\<lparr>working := (working w)\<lparr>current_coins := current_coins (working w) @ [mk i]\<rparr>,
           identity_map := insert (CurrentCoinE i) (identity_map w)\<rparr>)"

text \<open>
  \<^verbatim>\<open>
  def set_current_coin(self, coin: Union[Coin, str]):
      coin = self.get_coin(coin)
      with self.db_session() as session:
          if isinstance(coin, Coin):
              coin = session.merge(coin)
          cc = CurrentCoin(coin)
          session.add(cc)
          self.send_update(cc)
  \<close>
  \<^verbatim>\<open>get_coin\<close> returns a \<^verbatim>\<open>Coin\<close> or raises, so the test in the body holds.
\<close>

definition set_current_coin :: "coin_arg \<Rightarrow> world \<Rightarrow> unit result" where
  "set_current_coin arg w =
     (case get_coin arg w of
        None \<Rightarrow> None
      | Some (Inl e, w1) \<Rightarrow> Some (Inl e, w1)
      | Some (Inr c, w1) \<Rightarrow>
          db_session (\<lambda>w2.
            let w3 = merge_coin c w2;
                (dt, w4) = now w3
            in send_update CurrentCoinT
                 (session_add_current_coin (new_current_coin c dt) w4)) w1)"

text \<open>
  \<^verbatim>\<open>ORDER BY datetime DESC\<close> and \<^verbatim>\<open>first()\<close>: a row with the greatest timestamp, the
  earliest such row of the table.
\<close>

fun pick_latest :: "current_coin \<Rightarrow> current_coin list \<Rightarrow> current_coin" where
  "pick_latest best [] = best"
| "pick_latest best (r # rs) =
     pick_latest (if dt_less (cc_datetime best) (cc_datetime r) then r else best) rs"

definition first_by_datetime_desc :: "current_coin list \<Rightarrow> current_coin option" where
  "first_by_datetime_desc rows = (case rows of [] \<Rightarrow> None | r # rs \<Rightarrow> Some (pick_latest r rs))"

text \<open>
  \<^verbatim>\<open>
  def get_current_coin(self) -> Optional[Coin]:
      with self.db_session() as session:
          current_coin = session.query(CurrentCoin).order_by(CurrentCoin.datetime.desc()).first()
          if current_coin is None:
              return None
          coin = current_coin.coin
          session.expunge(coin)
          return coin
  \<close>
  \<^verbatim>\<open>current_coin.coin\<close> loads the coin of the row into the session, or is \<^verbatim>\<open>None\<close> when
  the coins table has no such symbol.
\<close>

definition get_current_coin :: "world \<Rightarrow> coin option result" where
  "get_current_coin w =
     db_session (\<lambda>w0.
       case first_by_datetime_desc (current_coins (working w0)) of
         None \<Rightarrow> Some (Inr None, w0)
       | Some cc \<Rightarrow>
           (let w1 = session_attach (CurrentCoinE (cc_id cc)) w0
            in case find (\<lambda>c. symbol c = cc_coin_id cc) (coins (working w1)) of
                 None \<Rightarrow> Some (Inl UnmappedInstanceError, w1)
               | Some c \<Rightarrow>
                   Some (Inr (Some c),
                     session_expunge (CoinE (symbol c)) (session_attach (CoinE (symbol c)) w1)))) w"

section \<open>Coins and pairs\<close>

text \<open>
  The first block of \<^verbatim>\<open>set_coins\<close>:
  \<^verbatim>\<open>
  coins: List[Coin] = session.query(Coin).all()
  for coin in coins:
      if coin.symbol not in symbols:
          coin.enabled = False
  for symbol in symbols:
      coin = next((coin for coin in coins if coin.symbol == symbol), None)
      if coin is None:
          session.add(Coin(symbol))
      else:
          coin.enabled = True
  \<close>
  The list \<^verbatim>\<open>coins\<close> holds the loaded objects, which are the rows of the session; a
  coin added in the loop is not in that list.
\<close>

definition disable_missing :: "string list \<Rightarrow> coin list \<Rightarrow> coin list" where
  "disable_missing symbols cs =
     map (\<lambda>c. if symbol c \<notin> set symbols then c\<lparr>enabled := False\<rparr> else c) cs"

fun enable_first :: "string \<Rightarrow> coin list \<Rightarrow> coin list" where
  "enable_first s [] = []"
| "enable_first s (c # cs) =
     (if symbol c = s then c\<lparr>enabled := True\<rparr> # cs else c # enable_first s cs)"

text \<open>
  Modelled from the spec: the constructor \<^verbatim>\<open>Coin(symbol)\<close> is in \<^verbatim>\<open>models/coin.py\<close>,
  which is not part of the sources; by the spec a symbol of the new set that is absent
  is created enabled.
\<close>

definition new_coin :: "string \<Rightarrow> coin" where
  "new_coin s = \<lparr>symbol = s, enabled = True\<rparr>"

fun enable_or_add :: "string list \<Rightarrow> coin list \<Rightarrow> coin list \<Rightarrow> coin list \<times> coin list" where
  "enable_or_add [] loaded added = (loaded, added)"
| "enable_or_add (s # ss) loaded added =
     (case find (\<lambda>c. symbol c = s) loaded of
        None \<Rightarrow> enable_or_add ss loaded (added @ [new_coin s])
      | Some c \<Rightarrow> enable_or_add ss (enable_first s loaded) added)"

definition sync_coins :: "string list \<Rightarrow> world \<Rightarrow> world" where
  "sync_coins symbols w =
     (let (loaded, added) =
            enable_or_add symbols (disable_missing symbols (coins (working w))) []
      in w\<lparr>working := (working w)\<lparr>coins := loaded @ added\<rparr>,
           identity_map := identity_map w \<union> CoinE ` symbol ` set (loaded @ added)\<rparr>)"

text \<open>
  The second block:
  \<^verbatim>\<open>
  coins: List[Coin] = session.query(Coin).filter(Coin.enabled).order_by(Coin.symbol).all()
  for coin in coins:
      CoinStub.create(coin.symbol)
  for from_coin in coins:
      for to_coin in coins:
          if from_coin != to_coin:
              pair = session.query(Pair).filter(Pair.from_coin == from_coin,
                                                Pair.to_coin == to_coin).first()
              if pair is None:
                  session.add(Pair(from_coin, to_coin))
  \<close>
  Two loaded coins are the same object exactly when they have the same symbol. The
  query in the loop sees the pairs added before it. A new \<^verbatim>\<open>Pair\<close> has no ratio yet.
\<close>

definition add_pair_if_missing :: "string \<Rightarrow> string \<Rightarrow> pair list \<Rightarrow> pair list" where
  "add_pair_if_missing f t ps =
     (if f \<noteq> t then
        (case find (\<lambda>p. from_coin_id p = f \<and> to_coin_id p = t) ps of
           None \<Rightarrow>
             ps @ [\<lparr>pair_id = next_id (map pair_id ps), from_coin_id = f, to_coin_id = t,
                    ratio = None\<rparr>]
         | Some p \<Rightarrow> ps)
      else ps)"

definition ensure_pairs :: "string list \<Rightarrow> pair list \<Rightarrow> pair list" where
  "ensure_pairs syms ps = fold (\<lambda>f. fold (add_pair_if_missing f) syms) syms ps"

definition enabled_symbols :: "database \<Rightarrow> string list" where
  "enabled_symbols db = map symbol (sort_key symbol (filter enabled (coins db)))"

definition sync_pairs :: "world \<Rightarrow> world" where
  "sync_pairs w =
     (let syms = enabled_symbols (working w);
          ps = ensure_pairs syms (pairs (working w))
      in w\<lparr>working := (working w)\<lparr>pairs := ps\<rparr>,
           coin_stubs := coin_stubs w @ syms,
           identity_map := identity_map w \<union> CoinE ` set syms \<union> PairE ` pair_id ` set ps\<rparr>)"

text \<open>
  \<^verbatim>\<open>
  def set_coins(self, symbols: List[str]):
      with self.db_session() as session:
          (first block)
      CoinStub.reset()
      with self.db_session() as session:
          (second block)
      with self.db_session() as session:
          pairs = session.query(Pair).filter(Pair.enabled.is_(True)).all()
          self.ratios_manager = RatiosManager(pairs)
  \<close>
\<close>

definition set_coins :: "string list \<Rightarrow> world \<Rightarrow> unit result" where
  "set_coins symbols w =
     (case db_session (\<lambda>w0. Some (Inr (), sync_coins symbols w0)) w of
        None \<Rightarrow> None
      | Some (Inl e, w1) \<Rightarrow> Some (Inl e, w1)
      | Some (Inr u, w1) \<Rightarrow>
          (case db_session (\<lambda>w0. Some (Inr (), sync_pairs w0)) (w1\<lparr>coin_stubs := []\<rparr>) of
             None \<Rightarrow> None
           | Some (Inl e, w2) \<Rightarrow> Some (Inl e, w2)
           | Some (Inr u, w2) \<Rightarrow>
               db_session (\<lambda>w0. Some (Inr (),
                 w0\<lparr>ratios_manager := Some (new_ratios_manager w0 (working w0))\<rparr>)) w2))"

section \<open>Calendar arithmetic\<close>

text \<open>
  What \<^verbatim>\<open>prune_value_history\<close> asks of its libraries: SQLite's \<^verbatim>\<open>strftime\<close> with the
  directives \<^verbatim>\<open>%H\<close>, \<^verbatim>\<open>%Y\<close>, \<^verbatim>\<open>%j\<close>, \<^verbatim>\<open>%W\<close>, and \<^verbatim>\<open>datetime - relativedelta(...)\<close> of
  dateutil for one day, one month and one year.
\<close>

definition is_leap :: "nat \<Rightarrow> bool" where
  "is_leap y \<longleftrightarrow> y mod 4 = 0 \<and> (y mod 100 \<noteq> 0 \<or> y mod 400 = 0)"

definition days_in_month :: "nat \<Rightarrow> nat \<Rightarrow> nat" where
  "days_in_month y m =
     (if m = 2 then (if is_leap y then 29 else 28)
      else if m = 4 \<or> m = 6 \<or> m = 9 \<or> m = 11 then 30
      else 31)"

text \<open>Days since the first of January, and days since the last Monday.\<close>

definition days_after_jan01 :: "datetime \<Rightarrow> nat" where
  "days_after_jan01 d =
     sum_list (map (days_in_month (year d))
                 (take (month d - 1) [1, 2, 3, 4, 5, 6, 7, 8, 9, 10, 11, 12]))
       + (day d - 1)"

definition days_before_year :: "nat \<Rightarrow> nat" where
  "days_before_year y = (y - 1) * 365 + (y - 1) div 4 - (y - 1) div 100 + (y - 1) div 400"

definition days_after_monday :: "datetime \<Rightarrow> nat" where
  "days_after_monday d = (days_before_year (year d) + days_after_jan01 d) mod 7"

definition digit_char :: "nat \<Rightarrow> char" where
  "digit_char n = ''0123456789'' ! (n mod 10)"

definition pad2 :: "nat \<Rightarrow> string" where
  "pad2 n = [digit_char (n div 10), digit_char n]"

definition pad3 :: "nat \<Rightarrow> string" where
  "pad3 n = digit_char (n div 100) # pad2 n"

definition pad4 :: "nat \<Rightarrow> string" where
  "pad4 n = digit_char (n div 1000) # pad3 n"

definition directive :: "char \<Rightarrow> datetime \<Rightarrow> string" where
  "directive c d =
     (if c = CHR ''H'' then pad2 (hour d)
      else if c = CHR ''Y'' then pad4 (year d)
      else if c = CHR ''j'' then pad3 (days_after_jan01 d + 1)
      else if c = CHR ''W'' then pad2 ((days_after_jan01 d + 7 - days_after_monday d) div 7)
      else [CHR ''%'', c])"

fun strftime :: "string \<Rightarrow> datetime \<Rightarrow> string" where
  "strftime [] d = []"
| "strftime [c] d = [c]"
| "strftime (c # x # fmt) d =
     (if c = CHR ''%'' then directive x d @ strftime fmt d else c # strftime (x # fmt) d)"

text \<open>
  \<^verbatim>\<open>dt - relativedelta(days=1)\<close> is the same time on the day before;
  \<^verbatim>\<open>dt - relativedelta(months=1)\<close> and \<^verbatim>\<open>dt - relativedelta(years=1)\<close> step the month or
  the year back and cut the day to the length of the month reached. Python has no
  date before year 1.
\<close>

definition minus_one_day :: "datetime \<Rightarrow> error + datetime" where
  "minus_one_day d =
     (if 1 < day d then Inr (d\<lparr>day := day d - 1\<rparr>)
      else if 1 < month d
        then Inr (d\<lparr>month := month d - 1, day := days_in_month (year d) (month d - 1)\<rparr>)
      else if 1 < year d then Inr (d\<lparr>year := year d - 1, month := 12, day := 31\<rparr>)
      else Inl OverflowError)"

definition minus_one_month :: "datetime \<Rightarrow> error + datetime" where
  "minus_one_month d =
     (if 1 < month d
        then Inr (d\<lparr>month := month d - 1,
                    day := min (days_in_month (year d) (month d - 1)) (day d)\<rparr>)
      else if 1 < year d
        then Inr (d\<lparr>year := year d - 1, month := 12, day := min 31 (day d)\<rparr>)
      else Inl ValueError)"

definition minus_one_year :: "datetime \<Rightarrow> error + datetime" where
  "minus_one_year d =
     (if 1 < year d
        then Inr (d\<lparr>year := year d - 1,
                    day := min (days_in_month (year d - 1) (month d)) (day d)\<rparr>)
      else Inl ValueError)"

section \<open>Value history\<close>

text \<open>
  \<^verbatim>\<open>GROUP BY\<close>: the rows that agree on the grouping key form one group; groups come in
  the order in which their keys first occur.
\<close>

definition group_by_key :: "('r \<Rightarrow> 'k) \<Rightarrow> 'r list \<Rightarrow> 'r list list" where
  "group_by_key key rows = map (\<lambda>k. filter (\<lambda>r. key r = k) rows) (remdups (map key rows))"

text \<open>
  A group is reported with \<^verbatim>\<open>max(datetime)\<close> and the other columns of a row where that
  maximum is attained (SQLite's rule for bare columns beside \<^verbatim>\<open>max\<close>); the model takes
  the earliest such row.
\<close>

fun latest_value :: "coin_value \<Rightarrow> coin_value list \<Rightarrow> coin_value" where
  "latest_value best [] = best"
| "latest_value best (r # rs) =
     latest_value (if dt_less (cv_datetime best) (cv_datetime r) then r else best) rs"

text \<open>
  \<^verbatim>\<open>
  def _datetime_id_query(dt_format):
      dt_column = func.strftime(dt_format, CoinValue.datetime)
      grouped = select(CoinValue, func.max(CoinValue.datetime), dt_column).group_by(
          CoinValue.coin_id, CoinValue, dt_column
      )
      return select(grouped.c.id.label("id")).select_from(grouped)
  \<close>
  The entity \<^verbatim>\<open>CoinValue\<close> in \<^verbatim>\<open>group_by\<close> stands for all of its columns, so the
  grouping key is the coin, the whole row and the formatted timestamp.
\<close>

definition grouping_key :: "string \<Rightarrow> coin_value \<Rightarrow> string \<times> coin_value \<times> string" where
  "grouping_key dt_format r = (cv_coin_id r, r, strftime dt_format (cv_datetime r))"

definition datetime_id_query :: "string \<Rightarrow> coin_value list \<Rightarrow> nat list" where
  "datetime_id_query dt_format rows =
     concat (map (\<lambda>g. case g of [] \<Rightarrow> [] | r # rs \<Rightarrow> [cv_id (latest_value r rs)])
               (group_by_key (grouping_key dt_format) rows))"

text \<open>
  \<^verbatim>\<open>
  def _update_query(datetime_query, interval):
      return update(CoinValue).where(CoinValue.id.in_(datetime_query)).values(interval=interval)
  \<close>
  The subquery is evaluated on the table as it is when the statement runs.
\<close>

definition update_query :: "string \<Rightarrow> interval \<Rightarrow> coin_value list \<Rightarrow> coin_value list" where
  "update_query dt_format iv rows =
     map (\<lambda>r. if cv_id r \<in> set (datetime_id_query dt_format rows)
               then r\<lparr>cv_interval := iv\<rparr> else r) rows"

definition execute_update_query :: "string \<Rightarrow> interval \<Rightarrow> world \<Rightarrow> (error + unit) \<times> world" where
  "execute_update_query dt_format iv w =
     (if store_fault w OpExecute then (Inl OperationalError, w)
      else (Inr (), emit_event (UpdateInterval iv)
             (w\<lparr>working := (working w)\<lparr>coin_values :=
                  update_query dt_format iv (coin_values (working w))\<rparr>\<rparr>)))"

text \<open>
  \<^verbatim>\<open>
  session.query(CoinValue).filter(
      CoinValue.interval == interval, CoinValue.datetime < time_diff
  ).delete()
  \<close>
\<close>

definition delete_older :: "interval \<Rightarrow> datetime \<Rightarrow> coin_value list \<Rightarrow> coin_value list" where
  "delete_older iv time_diff rows =
     filter (\<lambda>r. \<not> (cv_interval r = iv \<and> dt_less (cv_datetime r) time_diff)) rows"

definition execute_delete_older :: "interval \<Rightarrow> datetime \<Rightarrow> world \<Rightarrow> (error + unit) \<times> world" where
  "execute_delete_older iv time_diff w =
     (if store_fault w OpExecute then (Inl OperationalError, w)
      else (Inr (), emit_event (DeleteInterval iv time_diff)
             (w\<lparr>working := (working w)\<lparr>coin_values :=
                  delete_older iv time_diff (coin_values (working w))\<rparr>\<rparr>)))"

text \<open>Sequencing of steps that may raise: the first exception ends the sequence.\<close>

definition and_then ::
  "(world \<Rightarrow> (error + unit) \<times> world) \<Rightarrow> (world \<Rightarrow> (error + unit) \<times> world)
     \<Rightarrow> world \<Rightarrow> (error + unit) \<times> world" where
  "and_then f g w = (case f w of (Inl e, w1) \<Rightarrow> (Inl e, w1) | (Inr u, w1) \<Rightarrow> g w1)"

text \<open>
  The three reclassifying statements, in the order in which the body executes them:
  \<^verbatim>\<open>
  session.execute(hourly_update_query)     # _datetime_id_query("%H"),    Interval.HOURLY
  session.execute(daily_update_query)      # _datetime_id_query("%Y-%j"), Interval.DAILY
  session.execute(weekly_update_query)     # _datetime_id_query("%Y-%W"), Interval.WEEKLY
  session.commit()
  \<close>
\<close>

definition reclassify :: "world \<Rightarrow> (error + unit) \<times> world" where
  "reclassify =
     and_then (execute_update_query ''%H'' HOURLY)
       (and_then (execute_update_query ''%Y-%j'' DAILY)
          (and_then (execute_update_query ''%Y-%W'' WEEKLY) session_commit))"

text \<open>
  The three deletions that follow, each with its own reading of the clock:
  \<^verbatim>\<open>
  time_diff = datetime.now() - relativedelta(days=1)
  session.query(CoinValue).filter(interval == MINUTELY, datetime < time_diff).delete()
  time_diff = datetime.now() - relativedelta(months=1)
  session.query(CoinValue).filter(interval == HOURLY, datetime < time_diff).delete()
  time_diff = datetime.now() - relativedelta(years=1)
  session.query(CoinValue).filter(interval == DAILY, datetime < time_diff).delete()
  \<close>
\<close>

definition delete_step ::
  "(datetime \<Rightarrow> error + datetime) \<Rightarrow> interval \<Rightarrow> world \<Rightarrow> (error + unit) \<times> world" where
  "delete_step back iv w =
     (let (t, w1) = now w
      in case back t of
           Inl e \<Rightarrow> (Inl e, w1)
         | Inr time_diff \<Rightarrow> execute_delete_older iv time_diff w1)"

definition prune :: "world \<Rightarrow> (error + unit) \<times> world" where
  "prune =
     and_then (delete_step minus_one_day MINUTELY)
       (and_then (delete_step minus_one_month HOURLY)
          (delete_step minus_one_year DAILY))"

text \<open>
  \<^verbatim>\<open>prune_value_history\<close> is the two parts inside one \<^verbatim>\<open>db_session\<close>. An exception
  leaves the session as the statements executed so far have made it; what the commit
  in the middle made durable stays durable.
\<close>

definition prune_value_history :: "world \<Rightarrow> unit result" where
  "prune_value_history w = db_session (\<lambda>w0. Some (and_then reclassify prune w0)) w"

text \<open>
  The two transitions have one shape: merge the handle, assign, notify. \<open>trade_body\<close>
  is that shape with the assignments as a parameter.
\<close>

definition trade_body :: "nat \<Rightarrow> (trade \<Rightarrow> trade) \<Rightarrow> world \<Rightarrow> unit result" where
  "trade_body i f = (\<lambda>w0.
       case merge_trade i w0 of
         Inl e \<Rightarrow> Some (Inl e, w0)
       | Inr w1 \<Rightarrow> send_update TradeT (update_trade i f w1))"

text \<open>
  The bodies of the \<^verbatim>\<open>with\<close> blocks of \<^verbatim>\<open>TradeLog.__init__\<close> and of
  \<^verbatim>\<open>set_current_coin\<close>, named so that they can be spoken about.
\<close>

definition start_body :: "string \<Rightarrow> string \<Rightarrow> bool \<Rightarrow> world \<Rightarrow> trade_log result" where
  "start_body from_coin to_coin sell = (\<lambda>w0.
       let (dt, w1) = now w0;
           (i, w2) = session_add_trade (new_trade from_coin to_coin sell dt) w1
       in case session_flush w2 of
            Inl e \<Rightarrow> Some (Inl e, w2)
          | Inr u \<Rightarrow>
              (case send_update TradeT w2 of
                 None \<Rightarrow> None
               | Some (Inl e, w3) \<Rightarrow> Some (Inl e, w3)
               | Some (Inr u, w3) \<Rightarrow> Some (Inr \<lparr>tl_trade = i\<rparr>, w3)))"

definition current_coin_body :: "coin \<Rightarrow> world \<Rightarrow> unit result" where
  "current_coin_body c = (\<lambda>w2.
     let w3 = merge_coin c w2;
         (dt, w4) = now w3
     in send_update CurrentCoinT (session_add_current_coin (new_current_coin c dt) w4))"

section \<open>Notions used in the statements\<close>

text \<open>
  The events an operation has added to the trace; a trace with exactly one
  notification, followed at once by the commit and the close that end it; a step that
  adds no notification; an argument of \<^verbatim>\<open>set_current_coin\<close> that names a coin the
  session can see.
\<close>

definition new_events :: "world \<Rightarrow> world \<Rightarrow> event list" where
  "new_events w w' = drop (length (events w)) (events w')"

definition notified_then_committed :: "event list \<Rightarrow> bool" where
  "notified_then_committed es \<longleftrightarrow>
     length (filter is_notification es) = 1
     \<and> (case rev es of
          Close # Commit # n # before \<Rightarrow> is_notification n
        | _ \<Rightarrow> False)"

definition quiet :: "(world \<Rightarrow> (error + unit) \<times> world) \<Rightarrow> bool" where
  "quiet f \<longleftrightarrow>
     (\<forall>w r w'. f w = (r, w') \<longrightarrow>
        (\<exists>es. events w' = events w @ es \<and> filter is_notification es = []))"

definition coin_known :: "coin_arg \<Rightarrow> world \<Rightarrow> bool" where
  "coin_known arg w =
     (case arg of ByCoin c \<Rightarrow> True | BySymbol s \<Rightarrow> s \<in> symbol ` set (coins (working w)))"

definition arg_symbol :: "coin_arg \<Rightarrow> string" where
  "arg_symbol arg = (case arg of ByCoin c \<Rightarrow> symbol c | BySymbol s \<Rightarrow> s)"

text \<open>
  The ordered pair of symbols a \<^verbatim>\<open>Pair\<close> row stands for; the coins table that the
  first block of \<^verbatim>\<open>set_coins\<close> leaves in the session; and, as a closed form of it for
  tables with distinct symbols, \<open>synced\<close>: every existing coin is enabled exactly when
  its symbol is requested, and the requested symbols that are new are appended,
  enabled.
\<close>

definition pair_key :: "pair \<Rightarrow> string \<times> string" where
  "pair_key p = (from_coin_id p, to_coin_id p)"

definition coins_after :: "string list \<Rightarrow> coin list \<Rightarrow> coin list" where
  "coins_after symbols cs =
     (case enable_or_add symbols (disable_missing symbols cs) [] of
        (loaded, added) \<Rightarrow> loaded @ added)"

definition synced :: "string list \<Rightarrow> coin list \<Rightarrow> coin list" where
  "synced symbols cs =
     map (\<lambda>c. c\<lparr>enabled := symbol c \<in> set symbols\<rparr>) cs
       @ map new_coin (filter (\<lambda>s. s \<notin> symbol ` set cs) symbols)"


text \<open>
  For the value history: \<open>latest_in_bucket\<close> says that a sample is in the table and
  that no sample of the same coin with the same formatted timestamp is more recent;
  \<open>untagged\<close> is a sample without its interval tag; \<open>expired\<close> collects the three
  conditions under which the deletions of \<^verbatim>\<open>prune_value_history\<close> remove a sample,
  for the three cutoffs.
\<close>

definition latest_in_bucket :: "string \<Rightarrow> coin_value list \<Rightarrow> coin_value \<Rightarrow> bool" where
  "latest_in_bucket dt_format rows r \<longleftrightarrow>
     r \<in> set rows
     \<and> (\<forall>r' \<in> set rows.
           cv_coin_id r' = cv_coin_id r
           \<and> strftime dt_format (cv_datetime r') = strftime dt_format (cv_datetime r)
           \<longrightarrow> \<not> dt_less (cv_datetime r) (cv_datetime r'))"

definition untagged ::
  "coin_value \<Rightarrow> nat \<times> string \<times> float \<times> float \<times> float \<times> datetime" where
  "untagged r = (cv_id r, cv_coin_id r, balance r, usd_price r, btc_price r, cv_datetime r)"

definition expired :: "datetime \<Rightarrow> datetime \<Rightarrow> datetime \<Rightarrow> coin_value \<Rightarrow> bool" where
  "expired day_ago month_ago year_ago r \<longleftrightarrow>
     cv_interval r = MINUTELY \<and> dt_less (cv_datetime r) day_ago
     \<or> cv_interval r = HOURLY \<and> dt_less (cv_datetime r) month_ago
     \<or> cv_interval r = DAILY \<and> dt_less (cv_datetime r) year_ago"

section \<open>Example states\<close>

text \<open>
  A freshly created database on a host whose gateway refuses connections and whose
  store works; the clock advances one second per reading. The examples below start
  from it.
\<close>

definition demo_time :: "nat \<Rightarrow> datetime" where
  "demo_time n =
     \<lparr>year = 2024, month = 3, day = 15, hour = 10, minute = 30, second = n, microsecond = 0\<rparr>"

definition empty_database :: database where
  "empty_database =
     \<lparr>coins = [], pairs = [], current_coins = [], coin_values = [], scout_histories = [],
      trades = []\<rparr>"

definition demo_ratios :: ratios_manager where
  "demo_ratios = \<lparr>dirty = [], rm_pair_id = (\<lambda>c. 0), rm_ratio = (\<lambda>c. 0)\<rparr>"

definition demo_world :: world where
  "demo_world =
     \<lparr>durable = empty_database, working = empty_database, identity_map = {}, events = [],
      client_connected = False, client_namespaces = False, ratios_manager = None,
      coin_stubs = [], ticks = 0, clock = demo_time, store_fault = (\<lambda>op. False),
      connect_refused = True, client_poll = (\<lambda>k. (False, False)),
      new_ratios_manager = (\<lambda>ps. demo_ratios)\<rparr>"




text \<open>
  Two pairs and a ratio matrix with one dirty cell, which belongs to the first pair;
  and the same state on a store that refuses statements.
\<close>

definition demo_pairs :: "pair list" where
  "demo_pairs =
     [\<lparr>pair_id = 10, from_coin_id = ''BTC'', to_coin_id = ''ETH'', ratio = None\<rparr>,
      \<lparr>pair_id = 20, from_coin_id = ''ETH'', to_coin_id = ''BTC'', ratio = None\<rparr>]"

definition demo_dirty_ratios :: ratios_manager where
  "demo_dirty_ratios =
     \<lparr>dirty = [(2, 3)], rm_pair_id = (\<lambda>cell. if cell = (2, 3) then 10 else 20),
      rm_ratio = (\<lambda>cell. 2)\<rparr>"

definition demo_sync_world :: world where
  "demo_sync_world =
     demo_world\<lparr>durable := empty_database\<lparr>pairs := demo_pairs\<rparr>,
                working := empty_database\<lparr>pairs := demo_pairs\<rparr>,
                ratios_manager := Some demo_dirty_ratios\<rparr>"

definition demo_execute_fault :: world where
  "demo_execute_fault = demo_sync_world\<lparr>store_fault := (\<lambda>op. op = OpExecute)\<rparr>"

text \<open>
  The state after \<^verbatim>\<open>start_trade_log("ETH", "BTC", False)\<close> on the fresh database, and
  the handle that call returns.
\<close>

definition demo_started :: world where
  "demo_started = snd (the (start_trade_log ''ETH'' ''BTC'' False demo_world))"

definition demo_handle :: trade_log where
  "demo_handle = \<lparr>tl_trade = 1\<rparr>"

text \<open>
  The started trade on a host whose gateway is connected, and a database that knows
  one coin.
\<close>

definition demo_online_started :: world where
  "demo_online_started = demo_started\<lparr>client_connected := True, client_namespaces := True\<rparr>"

definition demo_btc_world :: world where
  "demo_btc_world =
     demo_world\<lparr>durable := empty_database\<lparr>coins := [new_coin ''BTC'']\<rparr>,
                working := empty_database\<lparr>coins := [new_coin ''BTC'']\<rparr>\<rparr>"

text \<open>
  A history of three switches between two coins; the latest one goes to \<^verbatim>\<open>ETH\<close>.
\<close>

definition demo_history :: world where
  "demo_history =
     demo_world\<lparr>working := empty_database
       \<lparr>coins := [new_coin ''BTC'', new_coin ''ETH''],
        current_coins :=
          [\<lparr>cc_id = 1, cc_coin_id = ''BTC'', cc_datetime = demo_time 0\<rparr>,
           \<lparr>cc_id = 2, cc_coin_id = ''ETH'', cc_datetime = demo_time 5\<rparr>,
           \<lparr>cc_id = 3, cc_coin_id = ''BTC'', cc_datetime = demo_time 3\<rparr>]\<rparr>\<rparr>"

text \<open>A configuration with two symbols.\<close>

definition demo_symbols :: "string list" where
  "demo_symbols = [''ETH'', ''BTC'']"

text \<open>
  Value histories: three raw samples of one coin within one hour, and a table with
  samples of every tag and age; the cutoffs are those of a clock that shows
  15 March 2024.
\<close>

definition demo_sample :: "nat \<Rightarrow> interval \<Rightarrow> datetime \<Rightarrow> coin_value" where
  "demo_sample i iv dt =
     \<lparr>cv_id = i, cv_coin_id = ''BTC'', balance = 1, usd_price = 2, btc_price = 3,
      cv_interval = iv, cv_datetime = dt\<rparr>"

definition demo_raw_hour :: "coin_value list" where
  "demo_raw_hour =
     [demo_sample 1 MINUTELY ((demo_time 0)\<lparr>minute := 5\<rparr>),
      demo_sample 2 MINUTELY ((demo_time 0)\<lparr>minute := 10\<rparr>),
      demo_sample 3 MINUTELY ((demo_time 0)\<lparr>minute := 20\<rparr>)]"

definition demo_values :: world where
  "demo_values =
     demo_world\<lparr>durable := empty_database\<lparr>coin_values := demo_raw_hour\<rparr>,
                working := empty_database\<lparr>coin_values := demo_raw_hour\<rparr>\<rparr>"

definition demo_mixed_rows :: "coin_value list" where
  "demo_mixed_rows =
     [demo_sample 1 MINUTELY ((demo_time 0)\<lparr>day := 13\<rparr>),
      demo_sample 2 MINUTELY ((demo_time 0)\<lparr>hour := 9\<rparr>),
      demo_sample 3 HOURLY ((demo_time 0)\<lparr>month := 1\<rparr>),
      demo_sample 4 DAILY ((demo_time 0)\<lparr>year := 2022\<rparr>),
      demo_sample 5 WEEKLY ((demo_time 0)\<lparr>year := 2018\<rparr>),
      demo_sample 6 HOURLY ((demo_time 0)\<lparr>day := 1\<rparr>)]"

definition demo_mixed :: world where
  "demo_mixed = demo_world\<lparr>working := empty_database\<lparr>coin_values := demo_mixed_rows\<rparr>\<rparr>"

definition demo_day_ago :: datetime where
  "demo_day_ago = (demo_time 0)\<lparr>day := 14\<rparr>"

definition demo_month_ago :: datetime where
  "demo_month_ago = (demo_time 1)\<lparr>month := 2\<rparr>"

definition demo_year_ago :: datetime where
  "demo_year_ago = (demo_time 2)\<lparr>year := 2023\<rparr>"

section \<open>Facts about the session\<close>



lemma session_commit_ok:
  "session_commit w1 = (Inr u, w2) \<Longrightarrow>
     w2 = emit_event Commit (w1\<lparr>durable := working w1\<rparr>)"
  by (auto simp: session_commit_def split: if_splits)


subsection \<open>Ratio updates\<close>

lemma update_ratios_map:
  "update_ratios params ps = map (fold set_ratio params) ps"
  unfolding update_ratios_def
  by (induction params arbitrary: ps) (simp_all add: comp_def)

lemma pair_id_set_ratio: "pair_id (set_ratio x q) = pair_id q"
  by (simp add: set_ratio_def)

lemma pair_id_fold_set_ratio: "pair_id (fold set_ratio params p) = pair_id p"
  by (induction params arbitrary: p) (simp_all add: pair_id_set_ratio)

lemma ratio_set_ratio:
  "ratio (set_ratio x q) = (if pair_id q = fst x then Some (snd x) else ratio q)"
  by (simp add: set_ratio_def)

lemma ratio_fold_set_ratio:
  assumes "(pair_id p, v) \<in> set params"
    and "\<And>v'. (pair_id p, v') \<in> set params \<Longrightarrow> v' = v"
  shows "ratio (fold set_ratio params p) = Some v"
  using assms
proof (induction params rule: rev_induct)
  case Nil
  then show ?case by simp
next
  case (snoc x xs)
  show ?case
  proof (cases "fst x = pair_id p")
    case True
    with snoc.prems(2) [of "snd x"] have "snd x = v" by (cases x) simp
    with True show ?thesis by (simp add: ratio_set_ratio pair_id_fold_set_ratio)
  next
    case False
    with snoc.prems(1) have "(pair_id p, v) \<in> set xs" by auto
    moreover have "\<And>v'. (pair_id p, v') \<in> set xs \<Longrightarrow> v' = v"
      using snoc.prems(2) by simp
    ultimately have "ratio (fold set_ratio xs p) = Some v" by (rule snoc.IH)
    with False show ?thesis by (simp add: ratio_set_ratio pair_id_fold_set_ratio)
  qed
qed

lemma update_ratios_ids:
  "map pair_id (update_ratios params ps) = map pair_id ps"
  by (simp add: update_ratios_map pair_id_fold_set_ratio comp_def)

lemma update_ratios_written:
  assumes inj: "inj_on pid (set cells)"
    and c: "c \<in> set cells"
    and p: "p \<in> set (update_ratios (map (\<lambda>cell. (pid cell, val cell)) cells) ps)"
    and id: "pair_id p = pid c"
  shows "ratio p = Some (val c)"
proof -
  let ?params = "map (\<lambda>cell. (pid cell, val cell)) cells"
  from p obtain q where q: "q \<in> set ps" and pq: "p = fold set_ratio ?params q"
    by (auto simp: update_ratios_map)
  from pq id have qid: "pair_id q = pid c" by (simp add: pair_id_fold_set_ratio)
  from c have hit: "(pair_id q, val c) \<in> set ?params" by (auto simp: qid)
  have uniq: "\<And>v'. (pair_id q, v') \<in> set ?params \<Longrightarrow> v' = val c"
  proof -
    fix v' assume "(pair_id q, v') \<in> set ?params"
    then obtain c' where c': "c' \<in> set cells" "pid c' = pid c" "v' = val c'"
      by (auto simp: qid)
    with inj c have "c' = c" by (auto dest: inj_onD)
    with c' show "v' = val c" by simp
  qed
  from ratio_fold_set_ratio [OF hit uniq] pq show ?thesis by simp
qed

lemma commit_ratios_success:
  assumes rm: "ratios_manager w = Some rm" and ne: "dirty rm \<noteq> []"
    and run: "commit_ratios w = Some (Inr (), w')"
  shows "pairs (durable w')
           = update_ratios (map (\<lambda>cell. (rm_pair_id rm cell, rm_ratio rm cell)) (dirty rm))
               (pairs (working w))
       \<and> ratios_manager w' = Some (rm\<lparr>dirty := []\<rparr>)
       \<and> events w' = events w @ [Commit, Close]"
  using assms
  by (auto simp: commit_ratios_def db_session_def execute_update_ratios_def session_commit_def
      session_close_def emit_event_def rm_commit_def split: if_splits)

lemma commit_ratios_failure:
  assumes rm: "ratios_manager w = Some rm"
    and run: "commit_ratios w = Some (Inl e, w')"
  shows "ratios_manager w' = Some rm \<and> durable w' = durable w \<and> events w' = events w"
  using assms
  by (auto simp: commit_ratios_def db_session_def execute_update_ratios_def session_commit_def
      session_close_def emit_event_def rm_commit_def split: if_splits)

lemma commit_ratios_returns: "commit_ratios w \<noteq> None"
  by (auto simp: commit_ratios_def db_session_def execute_update_ratios_def session_commit_def
      split: option.splits if_splits)


lemma fold_set_ratio_miss:
  "pair_id p \<notin> fst ` set params \<Longrightarrow> fold set_ratio params p = p"
  by (induction params arbitrary: p) (auto simp: set_ratio_def)

lemma update_ratios_untouched:
  assumes p: "p \<in> set (update_ratios (map (\<lambda>cell. (pid cell, val cell)) cells) ps)"
    and miss: "pair_id p \<notin> pid ` set cells"
  shows "p \<in> set ps"
proof -
  let ?params = "map (\<lambda>cell. (pid cell, val cell)) cells"
  from p obtain q where q: "q \<in> set ps" and pq: "p = fold set_ratio ?params q"
    by (auto simp: update_ratios_map)
  from pq miss have "pair_id q \<notin> fst ` set ?params"
    by (simp add: pair_id_fold_set_ratio image_comp comp_def)
  then have "fold set_ratio ?params q = q" by (rule fold_set_ratio_miss)
  with pq q show ?thesis by simp
qed

subsection \<open>Leaving a session\<close>

lemma db_session_success:
  assumes "db_session body w = Some (Inr a, w')"
  shows "\<exists>w1. body w = Some (Inr a, w1) \<and> \<not> store_fault w1 OpCommit
           \<and> distinct (map symbol (coins (working w1)))
           \<and> w' = session_close (emit_event Commit (w1\<lparr>durable := working w1\<rparr>))"
  using assms
  by (auto simp: db_session_def session_commit_def split: option.splits sum.splits if_splits)

lemma db_session_commits:
  assumes "body w = Some (Inr a, w1)" "\<not> store_fault w1 OpCommit"
    "distinct (map symbol (coins (working w1)))"
  shows "db_session body w
           = Some (Inr a, session_close (emit_event Commit (w1\<lparr>durable := working w1\<rparr>)))"
  using assms by (simp add: db_session_def session_commit_def)

lemma closed_fields:
  "durable (session_close (emit_event Commit (w1\<lparr>durable := d\<rparr>))) = d"
  "working (session_close (emit_event Commit (w1\<lparr>durable := d\<rparr>))) = d"
  "events (session_close (emit_event Commit (w1\<lparr>durable := d\<rparr>)))
     = events w1 @ [Commit, Close]"
  "identity_map (session_close (emit_event Commit (w1\<lparr>durable := d\<rparr>))) = {}"
  "ticks (session_close (emit_event Commit (w1\<lparr>durable := d\<rparr>))) = ticks w1"
  "ratios_manager (session_close (emit_event Commit (w1\<lparr>durable := d\<rparr>)))
     = ratios_manager w1"
  by (simp_all add: session_close_def emit_event_def)

subsection \<open>The relay\<close>

lemma api_session_None_iff:
  "api_session w = None \<longleftrightarrow>
     \<not> (client_connected w \<and> client_namespaces w)
     \<and> \<not> (\<not> client_connected w \<and> connect_refused w)
     \<and> poll_connected (client_poll w) 0 = None"
  by (auto simp: api_session_def client_connect_def emit_event_def split: option.splits)

lemma api_session_frame:
  assumes "api_session w = Some (ok, w1)"
  shows "durable w1 = durable w \<and> working w1 = working w \<and> identity_map w1 = identity_map w
       \<and> ratios_manager w1 = ratios_manager w \<and> ticks w1 = ticks w \<and> clock w1 = clock w
       \<and> store_fault w1 = store_fault w"
  using assms
  by (auto simp: api_session_def client_connect_def emit_event_def
      split: if_splits option.splits sum.splits)

lemma api_session_events:
  assumes "api_session w = Some (ok, w1)"
  shows "\<exists>rel. events w1 = events w @ rel \<and> set rel \<subseteq> {Connect, Sleep}"
  using assms
  by (auto simp: api_session_def client_connect_def emit_event_def
      split: if_splits option.splits sum.splits)

lemma send_update_frame:
  assumes "send_update t w = Some (r, w1)"
  shows "r = Inr () \<and> durable w1 = durable w \<and> working w1 = working w
       \<and> identity_map w1 = identity_map w \<and> ratios_manager w1 = ratios_manager w
       \<and> ticks w1 = ticks w \<and> clock w1 = clock w \<and> store_fault w1 = store_fault w"
proof -
  from assms obtain ok w0 where a: "api_session w = Some (ok, w0)"
    and w1: "w1 = emit_event (if ok then Emit t else Warning) w0" and r: "r = Inr ()"
    by (auto simp: send_update_def split: option.splits if_splits)
  from api_session_frame [OF a] w1 r show ?thesis by (simp add: emit_event_def)
qed

lemma send_update_events:
  assumes "send_update t w = Some (r, w1)"
  shows "\<exists>rel n. events w1 = events w @ rel @ [n] \<and> set rel \<subseteq> {Connect, Sleep}
           \<and> (n = Warning \<or> n = Emit t)"
proof -
  from assms obtain ok w0 where a: "api_session w = Some (ok, w0)"
    and w1: "w1 = emit_event (if ok then Emit t else Warning) w0"
    by (auto simp: send_update_def split: option.splits if_splits)
  from api_session_events [OF a] obtain rel where
    "events w0 = events w @ rel" "set rel \<subseteq> {Connect, Sleep}" by blast
  with w1 show ?thesis by (auto simp: emit_event_def)
qed

lemma send_update_None_iff: "send_update t w = None \<longleftrightarrow> api_session w = None"
  by (auto simp: send_update_def split: option.splits)

lemma send_update_relay_down:
  assumes "\<not> client_connected w" "connect_refused w"
  shows "send_update t w = Some (Inr (), emit_event Warning w)"
  using assms by (simp add: send_update_def api_session_def client_connect_def)

subsection \<open>Trade transitions\<close>

lemma trade_body_success:
  assumes "trade_body i f w = Some (Inr u, w1)"
  shows "\<exists>rel n. events w1 = events w @ rel @ [n] \<and> set rel \<subseteq> {Connect, Sleep}
           \<and> (n = Warning \<or> n = Emit TradeT)
           \<and> trades (working w1) = map (\<lambda>t. if trade_id t = i then f t else t) (trades (working w))
           \<and> coins (working w1) = coins (working w)
           \<and> store_fault w1 = store_fault w"
proof -
  from assms obtain w0 where m: "merge_trade i w = Inr w0"
    and s: "send_update TradeT (update_trade i f w0) = Some (Inr u, w1)"
    by (auto simp: trade_body_def split: sum.splits)
  from m have w0: "w0 = w\<lparr>identity_map := insert (TradeE i) (identity_map w)\<rparr>"
    by (auto simp: merge_trade_def split: option.splits)
  from send_update_frame [OF s] send_update_events [OF s] w0 show ?thesis
    by (auto simp: update_trade_def)
qed

lemma trade_body_returns:
  assumes row: "find (\<lambda>t. trade_id t = i) (trades (working w)) = Some t0"
    and relay: "api_session w \<noteq> None"
  shows "\<exists>w1. trade_body i f w = Some (Inr (), w1)"
proof -
  let ?w0 = "w\<lparr>identity_map := insert (TradeE i) (identity_map w)\<rparr>"
  from row have m: "merge_trade i w = Inr ?w0" by (simp add: merge_trade_def)
  from relay have "api_session (update_trade i f ?w0) \<noteq> None"
    by (simp add: api_session_None_iff update_trade_def)
  then have "send_update TradeT (update_trade i f ?w0) \<noteq> None"
    by (simp add: send_update_None_iff)
  then obtain r w1 where s: "send_update TradeT (update_trade i f ?w0) = Some (r, w1)"
    by auto
  with send_update_frame [OF s] have "send_update TradeT (update_trade i f ?w0) = Some (Inr (), w1)"
    by simp
  with m show ?thesis by (auto simp: trade_body_def)
qed

lemma set_complete_body:
  "set_complete tlog amount w
     = db_session (trade_body (tl_trade tlog)
         (\<lambda>t. t\<lparr>crypto_trade_amount := Some amount, trade_state := COMPLETE\<rparr>)) w"
  by (simp add: set_complete_def trade_body_def)

lemma set_ordered_body:
  "set_ordered tlog a c m w
     = db_session (trade_body (tl_trade tlog)
         (\<lambda>t. t\<lparr>alt_starting_balance := Some a, alt_trade_amount := Some m,
                 crypto_starting_balance := Some c, trade_state := ORDERED\<rparr>)) w"
  by (simp add: set_ordered_def trade_body_def)

lemma trade_session_success:
  assumes "db_session (trade_body i f) w = Some (Inr u, w')"
  shows "\<exists>rel n. events w' = events w @ rel @ [n, Commit, Close] \<and> set rel \<subseteq> {Connect, Sleep}
           \<and> (n = Warning \<or> n = Emit TradeT)
           \<and> trades (durable w') = map (\<lambda>t. if trade_id t = i then f t else t) (trades (working w))"
proof -
  from db_session_success [of "trade_body i f" w u w', OF assms] obtain w1 where
    b: "trade_body i f w = Some (Inr u, w1)"
    and w': "w' = session_close (emit_event Commit (w1\<lparr>durable := working w1\<rparr>))"
    by blast
  from trade_body_success [OF b] w' show ?thesis
    by (auto simp: closed_fields)
qed

lemma trade_session_returns:
  assumes row: "find (\<lambda>t. trade_id t = i) (trades (working w)) = Some t0"
    and relay: "api_session w \<noteq> None"
    and store: "\<not> store_fault w OpCommit" "distinct (map symbol (coins (working w)))"
  shows "\<exists>w'. db_session (trade_body i f) w = Some (Inr (), w')"
proof -
  from trade_body_returns [OF row relay] obtain w1 where
    b: "trade_body i f w = Some (Inr (), w1)" by blast
  from trade_body_success [OF b] store have
    "\<not> store_fault w1 OpCommit" "distinct (map symbol (coins (working w1)))" by auto
  from db_session_commits [of "trade_body i f" w "()" w1, OF b this] show ?thesis by blast
qed

lemma demo_started_eval:
  "start_trade_log ''ETH'' ''BTC'' False demo_world = Some (Inr demo_handle, demo_started)"
  unfolding demo_started_def
  by (simp add: start_trade_log_def db_session_def now_def session_add_trade_def
      session_flush_def send_update_def api_session_def client_connect_def
      session_commit_def session_close_def emit_event_def next_id_def new_trade_def
      demo_world_def empty_database_def demo_handle_def)

lemma demo_started_fields:
  "trades (working demo_started) = [new_trade ''ETH'' ''BTC'' False (demo_time 0) 1]"
  "trades (durable demo_started) = [new_trade ''ETH'' ''BTC'' False (demo_time 0) 1]"
  "coins (working demo_started) = []"
  "store_fault demo_started = (\<lambda>op. False)"
  "client_connected demo_started = False"
  "connect_refused demo_started = True"
  "events demo_started = [Warning, Commit, Close]"
  unfolding demo_started_def
  by (simp_all add: start_trade_log_def db_session_def now_def session_add_trade_def
      session_flush_def send_update_def api_session_def client_connect_def
      session_commit_def session_close_def emit_event_def next_id_def
      demo_world_def empty_database_def)

subsection \<open>Where the notification stands\<close>

lemma quiet_relay:
  "set rel \<subseteq> {Connect, Sleep} \<Longrightarrow> filter is_notification rel = []"
  by (induction rel) auto

lemma notified_then_committedI:
  assumes "set pre \<subseteq> {Commit, Close}" "set rel \<subseteq> {Connect, Sleep}" "n = Warning \<or> n = Emit t"
  shows "notified_then_committed (pre @ rel @ [n, Commit, Close])"
proof -
  from assms(1) have "filter is_notification pre = []" by (induction pre) auto
  with quiet_relay [OF assms(2)] assms(3) show ?thesis
    by (auto simp: notified_then_committed_def)
qed

lemma new_events_append: "events w' = events w @ es \<Longrightarrow> new_events w w' = es"
  by (simp add: new_events_def)

lemma trade_session_notifies:
  assumes "db_session (trade_body i f) w = Some (Inr u, w')"
  shows "notified_then_committed (new_events w w')"
proof -
  from trade_session_success [OF assms] obtain rel n where
    e: "events w' = events w @ rel @ [n, Commit, Close]" and rel: "set rel \<subseteq> {Connect, Sleep}"
    and n: "n = Warning \<or> n = Emit TradeT" by blast
  from notified_then_committedI [of "[]", OF _ rel n] new_events_append [OF e]
  show ?thesis by simp
qed

lemma start_body_success:
  assumes "start_body f t s w = Some (Inr tlog, w1)"
  shows "\<exists>rel n. events w1 = events w @ rel @ [n] \<and> set rel \<subseteq> {Connect, Sleep}
           \<and> (n = Warning \<or> n = Emit TradeT)
           \<and> trades (working w1)
               = trades (working w) @ [new_trade f t s (clock w (ticks w)) (tl_trade tlog)]"
proof -
  let ?i = "next_id (map trade_id (trades (working w)))"
  let ?w2 = "w\<lparr>ticks := Suc (ticks w),
               working := (working w)\<lparr>trades := trades (working w)
                  @ [new_trade f t s (clock w (ticks w)) ?i]\<rparr>,
               identity_map := insert (TradeE ?i) (identity_map w)\<rparr>"
  from assms have s: "send_update TradeT ?w2 = Some (Inr (), w1)" and i: "tl_trade tlog = ?i"
    by (auto simp: start_body_def now_def session_add_trade_def Let_def
        split: sum.splits option.splits)
  from send_update_frame [OF s] send_update_events [OF s] i show ?thesis
    by auto
qed

lemma start_trade_log_body:
  "start_trade_log f t s w = db_session (start_body f t s) w"
  by (simp add: start_trade_log_def start_body_def)

lemma start_trade_log_notifies:
  assumes "start_trade_log f t s w = Some (Inr tlog, w')"
  shows "notified_then_committed (new_events w w')"
proof -
  from assms have run: "db_session (start_body f t s) w = Some (Inr tlog, w')"
    by (simp add: start_trade_log_body)
  from db_session_success [of "start_body f t s" w tlog w', OF run] obtain w1 where
    b: "start_body f t s w = Some (Inr tlog, w1)"
    and w': "w' = session_close (emit_event Commit (w1\<lparr>durable := working w1\<rparr>))"
    by blast
  from start_body_success [OF b] obtain rel n where
    e: "events w1 = events w @ rel @ [n]" and rel: "set rel \<subseteq> {Connect, Sleep}"
    and n: "n = Warning \<or> n = Emit TradeT" by blast
  from e w' have "events w' = events w @ rel @ [n, Commit, Close]"
    by (simp add: closed_fields)
  from notified_then_committedI [of "[]", OF _ rel n] new_events_append [OF this]
  show ?thesis by simp
qed

subsection \<open>Switching the current coin\<close>

lemma current_coin_body_success:
  assumes "current_coin_body c w = Some (r, w1)"
  shows "r = Inr ()
       \<and> (\<exists>rel n. events w1 = events w @ rel @ [n] \<and> set rel \<subseteq> {Connect, Sleep}
           \<and> (n = Warning \<or> n = Emit CurrentCoinT))
       \<and> current_coins (working w1)
           = current_coins (working w)
               @ [new_current_coin c (clock w (ticks w))
                    (next_id (map cc_id (current_coins (working w))))]"
proof -
  let ?w3 = "merge_coin c w"
  let ?w5 = "session_add_current_coin (new_current_coin c (clock w (ticks w)))
               (?w3\<lparr>ticks := Suc (ticks ?w3)\<rparr>)"
  have t: "clock ?w3 = clock w" "ticks ?w3 = ticks w"
    "current_coins (working ?w3) = current_coins (working w)" "events ?w3 = events w"
    by (simp_all add: merge_coin_def session_attach_def)
  from assms have s: "send_update CurrentCoinT ?w5 = Some (r, w1)"
    by (simp add: current_coin_body_def now_def Let_def t)
  have w5: "events ?w5 = events w"
    "current_coins (working ?w5) = current_coins (working w)
       @ [new_current_coin c (clock w (ticks w)) (next_id (map cc_id (current_coins (working w))))]"
    by (simp_all add: session_add_current_coin_def Let_def t)
  from send_update_frame [OF s] send_update_events [OF s] w5 show ?thesis
    by auto
qed

lemma get_coin_success:
  assumes "get_coin arg w = Some (Inr c, w1)"
  shows "(case arg of
            ByCoin c' \<Rightarrow> c = c' \<and> w1 = w
          | BySymbol s \<Rightarrow> find (\<lambda>r. symbol r = s) (coins (working w)) = Some c
              \<and> events w1 = events w @ [Commit, Close]
              \<and> working w1 = working w \<and> ticks w1 = ticks w \<and> clock w1 = clock w)"
proof (cases arg)
  case (ByCoin c')
  with assms show ?thesis by (simp add: get_coin_def)
next
  case (BySymbol s)
  let ?body = "\<lambda>w0. case find (\<lambda>c. symbol c = s) (coins (working w0)) of
              None \<Rightarrow> Some (Inl UnmappedInstanceError, w0)
            | Some c \<Rightarrow> Some (Inr c, session_expunge (CoinE s) (session_attach (CoinE s) w0))"
  from assms BySymbol have run: "db_session ?body w = Some (Inr c, w1)"
    by (simp add: get_coin_def)
  from db_session_success [of ?body w c w1, OF run] obtain w0 where
    b: "?body w = Some (Inr c, w0)"
    and w1: "w1 = session_close (emit_event Commit (w0\<lparr>durable := working w0\<rparr>))"
    by blast
  from b have "find (\<lambda>r. symbol r = s) (coins (working w)) = Some c"
    and "w0 = session_expunge (CoinE s) (session_attach (CoinE s) w)"
    by (auto split: option.splits)
  with w1 BySymbol show ?thesis
    by (simp add: closed_fields session_expunge_def session_attach_def
        session_close_def emit_event_def)
qed

lemma set_current_coin_body:
  "set_current_coin arg w =
     (case get_coin arg w of
        None \<Rightarrow> None
      | Some (Inl e, w1) \<Rightarrow> Some (Inl e, w1)
      | Some (Inr c, w1) \<Rightarrow> db_session (current_coin_body c) w1)"
  unfolding set_current_coin_def current_coin_body_def by (rule refl)

lemma set_current_coin_notifies:
  assumes "set_current_coin arg w = Some (Inr u, w')"
  shows "notified_then_committed (new_events w w')"
proof -
  from assms obtain c w1 where g: "get_coin arg w = Some (Inr c, w1)"
    and run: "db_session (current_coin_body c) w1 = Some (Inr u, w')"
    by (auto simp: set_current_coin_body split: option.splits sum.splits)
  from get_coin_success [OF g] obtain pre where
    pre: "events w1 = events w @ pre" "set pre \<subseteq> {Commit, Close}"
    by (cases arg) auto
  from db_session_success [of "current_coin_body c" w1 u w', OF run] obtain w2 where
    b: "current_coin_body c w1 = Some (Inr u, w2)"
    and w': "w' = session_close (emit_event Commit (w2\<lparr>durable := working w2\<rparr>))"
    by blast
  from current_coin_body_success [OF b] obtain rel n where
    e: "events w2 = events w1 @ rel @ [n]" and rel: "set rel \<subseteq> {Connect, Sleep}"
    and n: "n = Warning \<or> n = Emit CurrentCoinT" by blast
  from e w' pre have "events w' = events w @ pre @ rel @ [n, Commit, Close]"
    by (simp add: closed_fields)
  from notified_then_committedI [OF pre(2) rel n] new_events_append [OF this]
  show ?thesis by simp
qed

lemma map_symbol_replace:
  "map (symbol \<circ> (\<lambda>r. if symbol r = symbol c then c else r)) cs = map symbol cs"
  by (induction cs) auto

lemma merge_coin_symbols:
  "distinct (map symbol (coins (working w))) \<Longrightarrow>
     distinct (map symbol (coins (working (merge_coin c w))))"
  by (auto simp: merge_coin_def session_attach_def map_symbol_replace)

lemma find_symbol:
  "s \<in> symbol ` set cs \<Longrightarrow> \<exists>c. find (\<lambda>r. symbol r = s) cs = Some c \<and> symbol c = s"
  by (induction cs) auto

lemma get_coin_returns:
  assumes known: "coin_known arg w"
    and store: "\<not> store_fault w OpCommit" "distinct (map symbol (coins (working w)))"
  shows "\<exists>c w1. get_coin arg w = Some (Inr c, w1) \<and> symbol c = arg_symbol arg"
proof (cases arg)
  case (ByCoin c)
  then show ?thesis by (simp add: get_coin_def arg_symbol_def)
next
  case (BySymbol s)
  with known obtain c where c: "find (\<lambda>r. symbol r = s) (coins (working w)) = Some c"
    "symbol c = s"
    using find_symbol [of s "coins (working w)"] by (auto simp: coin_known_def)
  with BySymbol store show ?thesis
    by (simp add: get_coin_def db_session_def session_commit_def session_expunge_def
        session_attach_def arg_symbol_def)
qed

lemma get_coin_frame:
  assumes "get_coin arg w = Some (Inr c, w1)"
  shows "working w1 = working w \<and> ticks w1 = ticks w \<and> clock w1 = clock w
       \<and> client_connected w1 = client_connected w \<and> connect_refused w1 = connect_refused w
       \<and> store_fault w1 = store_fault w
       \<and> (\<exists>pre. events w1 = events w @ pre \<and> set pre \<subseteq> {Commit, Close})"
proof (cases arg)
  case (ByCoin c')
  with assms show ?thesis by (simp add: get_coin_def)
next
  case (BySymbol s)
  with assms show ?thesis
    by (auto simp: get_coin_def db_session_def session_commit_def session_close_def
        emit_event_def session_expunge_def session_attach_def
        split: option.splits if_splits)
qed

lemma current_coin_session_relay_down:
  assumes down: "\<not> client_connected w" "connect_refused w"
    and store: "\<not> store_fault w OpCommit" "distinct (map symbol (coins (working w)))"
  shows "\<exists>w'. db_session (current_coin_body c) w = Some (Inr (), w')
           \<and> events w' = events w @ [Warning, Commit, Close]
           \<and> current_coins (durable w')
               = current_coins (working w)
                   @ [new_current_coin c (clock w (ticks w))
                        (next_id (map cc_id (current_coins (working w))))]"
proof -
  let ?w5 = "session_add_current_coin (new_current_coin c (clock w (ticks w)))
               ((merge_coin c w)\<lparr>ticks := Suc (ticks w)\<rparr>)"
  have f: "\<not> client_connected ?w5" "connect_refused ?w5" "events ?w5 = events w"
    "store_fault ?w5 = store_fault w"
    "coins (working ?w5) = coins (working (merge_coin c w))"
    "current_coins (working ?w5) = current_coins (working w)
       @ [new_current_coin c (clock w (ticks w)) (next_id (map cc_id (current_coins (working w))))]"
    using down
    by (simp_all add: session_add_current_coin_def merge_coin_def session_attach_def Let_def)
  have t: "clock (merge_coin c w) = clock w" "ticks (merge_coin c w) = ticks w"
    by (simp_all add: merge_coin_def session_attach_def)
  define w6 where "w6 = emit_event Warning ?w5"
  have b: "current_coin_body c w = Some (Inr (), w6)"
    unfolding w6_def
    by (simp add: current_coin_body_def now_def Let_def t send_update_relay_down [OF f(1,2)])
  have g: "events w6 = events w @ [Warning]" "working w6 = working ?w5"
    "store_fault w6 = store_fault w"
    by (simp_all add: w6_def emit_event_def f)
  have ok: "\<not> store_fault w6 OpCommit" "distinct (map symbol (coins (working w6)))"
    using store merge_coin_symbols [OF store(2), of c]
    by (simp_all add: g f)
  from db_session_commits [of "current_coin_body c" w "()" w6, OF b ok]
  show ?thesis
    by (simp add: closed_fields g f)
qed

subsection \<open>Operations that notify nobody\<close>

lemma quiet_and_then: "quiet f \<Longrightarrow> quiet g \<Longrightarrow> quiet (and_then f g)"
  unfolding quiet_def and_then_def
  by (fastforce split: prod.splits sum.splits)

lemma quiet_execute_update_query: "quiet (execute_update_query fmt iv)"
  by (auto simp: quiet_def execute_update_query_def emit_event_def split: if_splits)

lemma quiet_session_commit: "quiet session_commit"
  by (auto simp: quiet_def session_commit_def emit_event_def split: if_splits)

lemma quiet_delete_step: "quiet (delete_step back iv)"
  by (auto simp: quiet_def delete_step_def now_def execute_delete_older_def emit_event_def
      split: if_splits sum.splits)

lemma quiet_reclassify_prune: "quiet (and_then reclassify prune)"
  unfolding reclassify_def prune_def
  by (intro quiet_and_then quiet_execute_update_query quiet_session_commit quiet_delete_step)

lemma db_session_quiet:
  assumes body: "\<And>r w1. body w = Some (r, w1) \<Longrightarrow>
      \<exists>es. events w1 = events w @ es \<and> filter is_notification es = []"
    and run: "db_session body w = Some (r, w')"
  shows "\<exists>es. events w' = events w @ es \<and> filter is_notification es = []"
proof -
  from run obtain r1 w1 where b: "body w = Some (r1, w1)"
    by (auto simp: db_session_def split: option.splits)
  from body [OF b] obtain es where es: "events w1 = events w @ es"
    "filter is_notification es = []" by blast
  from run b have "events w' = events w1 \<or> events w' = events w1 @ [Commit, Close]"
    by (auto simp: db_session_def session_commit_def session_close_def emit_event_def
        split: sum.splits if_splits)
  with es show ?thesis by auto
qed

lemma prune_value_history_quiet:
  assumes "prune_value_history w = Some (r, w')"
  shows "filter is_notification (new_events w w') = []"
proof -
  have "\<exists>es. events w' = events w @ es \<and> filter is_notification es = []"
  proof (rule db_session_quiet)
    show "db_session (\<lambda>w0. Some (and_then reclassify prune w0)) w = Some (r, w')"
      using assms by (simp add: prune_value_history_def)
  next
    fix r1 w1
    assume "Some (and_then reclassify prune w) = Some (r1, w1)"
    with quiet_reclassify_prune
    show "\<exists>es. events w1 = events w @ es \<and> filter is_notification es = []"
      by (simp add: quiet_def)
  qed
  then show ?thesis by (auto simp: new_events_def)
qed

lemma commit_ratios_quiet:
  assumes "commit_ratios w = Some (r, w')"
  shows "filter is_notification (new_events w w') = []"
proof (cases "ratios_manager w")
  case None
  with assms show ?thesis by (simp add: commit_ratios_def new_events_def)
next
  case (Some rm)
  show ?thesis
  proof (cases "dirty rm = []")
    case True
    with Some assms show ?thesis by (simp add: commit_ratios_def new_events_def)
  next
    case False
    let ?body = "execute_update_ratios
        (map (\<lambda>cell. (rm_pair_id rm cell, rm_ratio rm cell)) (dirty rm))"
    from assms Some False obtain r0 w0 where
      run: "db_session ?body w = Some (r0, w0)" and ev: "events w' = events w0"
      by (auto simp: commit_ratios_def split: option.splits sum.splits)
    have "\<exists>es. events w0 = events w @ es \<and> filter is_notification es = []"
    proof (rule db_session_quiet [OF _ run])
      fix r1 w1
      assume "?body w = Some (r1, w1)"
      then have "events w1 = events w"
        by (auto simp: execute_update_ratios_def split: if_splits)
      then show "\<exists>es. events w1 = events w @ es \<and> filter is_notification es = []"
        by simp
    qed
    with ev show ?thesis by (auto simp: new_events_def)
  qed
qed

lemmas session_defs = db_session_def session_commit_def session_close_def emit_event_def
  now_def next_id_def

lemmas relay_defs = send_update_def api_session_def client_connect_def

subsection \<open>The latest row\<close>

lemma pick_latest_member: "pick_latest best rs \<in> set (best # rs)"
  by (induction rs arbitrary: best) auto

lemma pick_latest_ge_best:
  "\<not> dt_less (cc_datetime (pick_latest best rs)) (cc_datetime best)"
proof (induction rs arbitrary: best)
  case Nil
  show ?case by (simp add: dt_less_def)
next
  case (Cons r rs)
  show ?case
  proof (cases "dt_less (cc_datetime best) (cc_datetime r)")
    case True
    with Cons.IH [of r] show ?thesis by (auto simp: dt_less_def)
  next
    case False
    with Cons.IH [of best] show ?thesis by simp
  qed
qed

lemma pick_latest_greatest:
  "r \<in> set (best # rs) \<Longrightarrow> \<not> dt_less (cc_datetime (pick_latest best rs)) (cc_datetime r)"
proof (induction rs arbitrary: best)
  case Nil
  then show ?case by (simp add: dt_less_def)
next
  case (Cons x rs)
  let ?b = "if dt_less (cc_datetime best) (cc_datetime x) then x else best"
  show ?case
  proof (cases "r \<in> set (?b # rs)")
    case True
    then show ?thesis using Cons.IH [of ?b] by simp
  next
    case False
    with Cons.prems have r: "r = best \<or> r = x" by (auto split: if_splits)
    have "\<not> dt_less (cc_datetime ?b) (cc_datetime r)"
      using r by (auto simp: dt_less_def)
    moreover have "\<not> dt_less (cc_datetime (pick_latest ?b rs)) (cc_datetime ?b)"
      by (rule pick_latest_ge_best)
    ultimately show ?thesis by (auto simp: dt_less_def)
  qed
qed

lemma first_by_datetime_desc_Some:
  assumes "first_by_datetime_desc rows = Some cc"
  shows "cc \<in> set rows \<and> (\<forall>r \<in> set rows. \<not> dt_less (cc_datetime cc) (cc_datetime r))"
proof (cases rows)
  case Nil
  with assms show ?thesis by (simp add: first_by_datetime_desc_def)
next
  case (Cons r rs)
  with assms have cc: "cc = pick_latest r rs" by (simp add: first_by_datetime_desc_def)
  with Cons pick_latest_member [of r rs] pick_latest_greatest [of _ r rs] show ?thesis
    by blast
qed

lemma first_by_datetime_desc_None:
  "first_by_datetime_desc rows = None \<longleftrightarrow> rows = []"
  by (simp add: first_by_datetime_desc_def split: list.splits)

lemma find_symbol_member:
  "find (\<lambda>r. symbol r = s) cs = Some c \<Longrightarrow> c \<in> set cs \<and> symbol c = s"
  by (induction cs) (auto split: if_splits)

lemma dt_less_demo_time: "dt_less (demo_time a) (demo_time b) \<longleftrightarrow> a < b"
  by (simp add: dt_less_def dt_key_def demo_time_def)

subsection \<open>Coins and pairs\<close>

lemma enable_first_map:
  "distinct (map symbol cs) \<Longrightarrow>
     enable_first s cs = map (\<lambda>c. if symbol c = s then c\<lparr>enabled := True\<rparr> else c) cs"
proof (induction cs)
  case Nil
  show ?case by simp
next
  case (Cons c cs)
  show ?case
  proof (cases "symbol c = s")
    case True
    with Cons.prems have "s \<notin> symbol ` set cs" by simp
    then have "\<forall>x \<in> set cs. symbol x \<noteq> s" by blast
    then have "map (\<lambda>c. if symbol c = s then c\<lparr>enabled := True\<rparr> else c) cs = cs"
      by (induction cs) auto
    with True show ?thesis by simp
  next
    case False
    with Cons show ?thesis by simp
  qed
qed

lemma symbols_enable_first: "map symbol (enable_first s cs) = map symbol cs"
  by (induction cs) auto

lemma enable_or_add_symbols:
  "map symbol (fst (enable_or_add ss loaded added)) = map symbol loaded"
  by (induction ss arbitrary: loaded added)
    (auto simp: symbols_enable_first split: option.splits)

lemma enable_or_add_char:
  assumes "distinct (map symbol loaded)"
  shows "enable_or_add ss loaded added =
     (map (\<lambda>c. if symbol c \<in> set ss then c\<lparr>enabled := True\<rparr> else c) loaded,
      added @ map new_coin (filter (\<lambda>s. s \<notin> symbol ` set loaded) ss))"
  using assms
proof (induction ss arbitrary: loaded added)
  case Nil
  show ?case by simp
next
  case (Cons s ss)
  show ?case
  proof (cases "find (\<lambda>c. symbol c = s) loaded")
    case None
    then have miss: "s \<notin> symbol ` set loaded" by (auto simp: find_None_iff)
    then have "map (\<lambda>c. if symbol c \<in> set (s # ss) then c\<lparr>enabled := True\<rparr> else c) loaded
             = map (\<lambda>c. if symbol c \<in> set ss then c\<lparr>enabled := True\<rparr> else c) loaded"
      by (intro map_cong) auto
    with None miss Cons.IH [OF Cons.prems, of "added @ [new_coin s]"] show ?thesis
      by simp
  next
    case (Some c)
    then have hit: "s \<in> symbol ` set loaded"
      by (auto dest: find_symbol_member)
    let ?l = "enable_first s loaded"
    have d: "distinct (map symbol ?l)"
      using Cons.prems by (simp add: symbols_enable_first)
    have sy: "symbol ` set ?l = symbol ` set loaded"
      using symbols_enable_first [of s loaded] by (metis set_map)
    have "map (\<lambda>c. if symbol c \<in> set ss then c\<lparr>enabled := True\<rparr> else c) ?l
        = map (\<lambda>c. if symbol c \<in> set (s # ss) then c\<lparr>enabled := True\<rparr> else c) loaded"
      by (simp add: enable_first_map [OF Cons.prems]) 
    with Some hit Cons.IH [OF d, of added] sy show ?thesis
      by simp
  qed
qed

lemma sync_result:
  assumes "distinct (map symbol cs)"
  shows "(case enable_or_add symbols (disable_missing symbols cs) [] of
            (loaded, added) \<Rightarrow> loaded @ added) = synced symbols cs"
proof -
  have sy: "map symbol (disable_missing symbols cs) = map symbol cs"
    by (simp add: disable_missing_def comp_def)
  then have im: "symbol ` set (disable_missing symbols cs) = symbol ` set cs"
    by (metis set_map)
  from assms sy have d: "distinct (map symbol (disable_missing symbols cs))" by simp
  have "map (\<lambda>c. if symbol c \<in> set symbols then c\<lparr>enabled := True\<rparr> else c)
          (disable_missing symbols cs)
        = map (\<lambda>c. c\<lparr>enabled := symbol c \<in> set symbols\<rparr>) cs"
    by (simp add: disable_missing_def)
  then show ?thesis
    by (simp add: enable_or_add_char [OF d] im synced_def)
qed

lemma synced_idem:
  "synced symbols (synced symbols cs) = synced symbols cs"
proof -
  have cover: "set symbols \<subseteq> symbol ` set (synced symbols cs)"
    by (auto simp: synced_def new_coin_def image_Un image_image)
  then have "filter (\<lambda>s. s \<notin> symbol ` set (synced symbols cs)) symbols = []"
    by (auto simp: filter_empty_conv)
  moreover have "map (\<lambda>c. c\<lparr>enabled := symbol c \<in> set symbols\<rparr>) (synced symbols cs)
      = synced symbols cs"
    by (auto simp: synced_def new_coin_def)
  ultimately show ?thesis by (simp add: synced_def [of symbols "synced symbols cs"])
qed

lemma synced_enabled:
  "c \<in> set (synced symbols cs) \<Longrightarrow> enabled c \<longleftrightarrow> symbol c \<in> set symbols"
  by (auto simp: synced_def new_coin_def)

lemma find_pair_None:
  "find (\<lambda>p. from_coin_id p = f \<and> to_coin_id p = t) ps = None
     \<longleftrightarrow> (f, t) \<notin> pair_key ` set ps"
  by (auto simp: find_None_iff pair_key_def image_iff)

lemma add_pair_if_missing_cases:
  "add_pair_if_missing f t ps =
     (if f \<noteq> t \<and> (f, t) \<notin> pair_key ` set ps
      then ps @ [\<lparr>pair_id = next_id (map pair_id ps), from_coin_id = f, to_coin_id = t,
                  ratio = None\<rparr>]
      else ps)"
  using find_pair_None [of f t ps]
  by (auto simp: add_pair_if_missing_def split: option.splits)

lemma add_pair_keys:
  "pair_key ` set (add_pair_if_missing f t ps)
     = pair_key ` set ps \<union> (if f \<noteq> t then {(f, t)} else {})"
  by (auto simp: add_pair_if_missing_cases pair_key_def)

lemma add_pair_distinct:
  "distinct (map pair_key ps) \<Longrightarrow> distinct (map pair_key (add_pair_if_missing f t ps))"
  by (auto simp: add_pair_if_missing_cases pair_key_def)

lemma add_pair_present:
  "f = t \<or> (f, t) \<in> pair_key ` set ps \<Longrightarrow> add_pair_if_missing f t ps = ps"
  by (auto simp: add_pair_if_missing_cases)

lemma inner_keys:
  "pair_key ` set (fold (add_pair_if_missing f) ts ps)
     = pair_key ` set ps \<union> {(f, t) | t. t \<in> set ts \<and> f \<noteq> t}"
  by (induction ts arbitrary: ps) (auto simp: add_pair_keys)

lemma inner_distinct:
  "distinct (map pair_key ps) \<Longrightarrow> distinct (map pair_key (fold (add_pair_if_missing f) ts ps))"
  by (induction ts arbitrary: ps) (auto simp: add_pair_distinct)

lemma inner_present:
  "\<forall>t \<in> set ts. f = t \<or> (f, t) \<in> pair_key ` set ps \<Longrightarrow>
     fold (add_pair_if_missing f) ts ps = ps"
  by (induction ts arbitrary: ps) (auto simp: add_pair_present)

lemma outer_keys:
  "pair_key ` set (fold (\<lambda>f. fold (add_pair_if_missing f) ts) fs ps)
     = pair_key ` set ps \<union> {(f, t) | f t. f \<in> set fs \<and> t \<in> set ts \<and> f \<noteq> t}"
  by (induction fs arbitrary: ps) (auto simp: inner_keys)

lemma outer_distinct:
  "distinct (map pair_key ps) \<Longrightarrow>
     distinct (map pair_key (fold (\<lambda>f. fold (add_pair_if_missing f) ts) fs ps))"
  by (induction fs arbitrary: ps) (auto simp: inner_distinct)

lemma outer_present:
  "\<forall>f \<in> set fs. \<forall>t \<in> set ts. f = t \<or> (f, t) \<in> pair_key ` set ps \<Longrightarrow>
     fold (\<lambda>f. fold (add_pair_if_missing f) ts) fs ps = ps"
  by (induction fs arbitrary: ps) (auto simp: inner_present)

lemma ensure_pairs_keys:
  "pair_key ` set (ensure_pairs syms ps)
     = pair_key ` set ps \<union> {(f, t) | f t. f \<in> set syms \<and> t \<in> set syms \<and> f \<noteq> t}"
  by (simp add: ensure_pairs_def outer_keys)

lemma ensure_pairs_distinct:
  "distinct (map pair_key ps) \<Longrightarrow> distinct (map pair_key (ensure_pairs syms ps))"
  by (simp add: ensure_pairs_def outer_distinct)

lemma ensure_pairs_idem: "ensure_pairs syms (ensure_pairs syms ps) = ensure_pairs syms ps"
proof -
  have "\<forall>f \<in> set syms. \<forall>t \<in> set syms.
          f = t \<or> (f, t) \<in> pair_key ` set (ensure_pairs syms ps)"
    by (auto simp: ensure_pairs_keys)
  then show ?thesis
    unfolding ensure_pairs_def [of syms "ensure_pairs syms ps"] by (rule outer_present)
qed

lemma set_enabled_symbols:
  "set (enabled_symbols db) = symbol ` {c \<in> set (coins db). enabled c}"
  by (auto simp: enabled_symbols_def)

lemma exactly_one:
  "distinct (map pair_key ps) \<Longrightarrow> k \<in> pair_key ` set ps \<Longrightarrow>
     length (filter (\<lambda>p. pair_key p = k) ps) = 1"
proof (induction ps)
  case Nil
  then show ?case by simp
next
  case (Cons p ps)
  show ?case
  proof (cases "pair_key p = k")
    case True
    with Cons.prems(1) have "k \<notin> pair_key ` set ps" by auto
    then have "filter (\<lambda>p. pair_key p = k) ps = []"
      by (auto simp: filter_empty_conv)
    with True show ?thesis by simp
  next
    case False
    with Cons show ?thesis by auto
  qed
qed

lemma sync_coins_fields:
  "coins (working (sync_coins symbols w)) = coins_after symbols (coins (working w))"
  "pairs (working (sync_coins symbols w)) = pairs (working w)"
  "store_fault (sync_coins symbols w) = store_fault w"
  "durable (sync_coins symbols w) = durable w"
  by (simp_all add: sync_coins_def coins_after_def split: prod.splits)

lemma sync_pairs_fields:
  "coins (working (sync_pairs w)) = coins (working w)"
  "pairs (working (sync_pairs w))
     = ensure_pairs (enabled_symbols (working w)) (pairs (working w))"
  "store_fault (sync_pairs w) = store_fault w"
  by (simp_all add: sync_pairs_def Let_def)

lemma unit_session_success:
  assumes "db_session (\<lambda>w0. Some (Inr (), step w0)) w = Some (Inr u, w')"
  shows "\<not> store_fault (step w) OpCommit
       \<and> distinct (map symbol (coins (working (step w))))
       \<and> durable w' = working (step w) \<and> working w' = working (step w)
       \<and> store_fault w' = store_fault (step w)"
  using assms
  by (auto simp: db_session_def session_commit_def session_close_def emit_event_def
      split: if_splits)

lemma set_coins_success:
  assumes "set_coins symbols w = Some (Inr (), w')"
  shows "coins (durable w') = coins_after symbols (coins (working w))
       \<and> distinct (map symbol (coins (durable w')))
       \<and> pairs (durable w')
           = ensure_pairs (enabled_symbols (durable w')) (pairs (working w))
       \<and> working w' = durable w' \<and> store_fault w' = store_fault w"
proof -
  from assms obtain w1 w2 where
    s1: "db_session (\<lambda>w0. Some (Inr (), sync_coins symbols w0)) w = Some (Inr (), w1)"
    and s2: "db_session (\<lambda>w0. Some (Inr (), sync_pairs w0)) (w1\<lparr>coin_stubs := []\<rparr>)
               = Some (Inr (), w2)"
    and s3: "db_session (\<lambda>w0. Some (Inr (),
                 w0\<lparr>ratios_manager := Some (new_ratios_manager w0 (working w0))\<rparr>)) w2
               = Some (Inr (), w')"
    by (auto simp: set_coins_def split: option.splits sum.splits)
  note a = unit_session_success [OF s1]
  note b = unit_session_success [OF s2]
  note c = unit_session_success [OF s3]
  from a have w1: "coins (working w1) = coins_after symbols (coins (working w))"
    "pairs (working w1) = pairs (working w)" "store_fault w1 = store_fault w"
    "distinct (map symbol (coins (working w1)))"
    by (simp_all add: sync_coins_fields)
  from b w1 have w2: "coins (working w2) = coins_after symbols (coins (working w))"
    "pairs (working w2)
       = ensure_pairs (enabled_symbols (working (w1\<lparr>coin_stubs := []\<rparr>))) (pairs (working w))"
    "store_fault w2 = store_fault w"
    by (simp_all add: sync_pairs_fields)
  have es: "enabled_symbols (working (w1\<lparr>coin_stubs := []\<rparr>)) = enabled_symbols (durable w')"
    using c w1 w2 by (simp add: enabled_symbols_def)
  from c w1 w2 es show ?thesis by simp
qed

lemma unit_session_commits:
  assumes "\<not> store_fault (step w) OpCommit"
    "distinct (map symbol (coins (working (step w))))"
  shows "\<exists>w'. db_session (\<lambda>w0. Some (Inr (), step w0)) w = Some (Inr (), w')
           \<and> working w' = working (step w) \<and> store_fault w' = store_fault (step w)"
  using assms
  by (simp add: db_session_def session_commit_def session_close_def emit_event_def)

lemma set_coins_returns:
  assumes store: "\<not> store_fault w OpCommit"
    and d: "distinct (map symbol (coins_after symbols (coins (working w))))"
  shows "\<exists>w'. set_coins symbols w = Some (Inr (), w')"
proof -
  from unit_session_commits [of "sync_coins symbols" w] store d obtain w1 where
    s1: "db_session (\<lambda>w0. Some (Inr (), sync_coins symbols w0)) w = Some (Inr (), w1)"
    and w1: "working w1 = working (sync_coins symbols w)"
      "store_fault w1 = store_fault (sync_coins symbols w)"
    by (auto simp: sync_coins_fields)
  let ?w1 = "w1\<lparr>coin_stubs := []\<rparr>"
  have "\<not> store_fault (sync_pairs ?w1) OpCommit"
    "distinct (map symbol (coins (working (sync_pairs ?w1))))"
    using store d w1 by (simp_all add: sync_pairs_fields sync_coins_fields)
  from unit_session_commits [of sync_pairs ?w1, OF this] obtain w2 where
    s2: "db_session (\<lambda>w0. Some (Inr (), sync_pairs w0)) ?w1 = Some (Inr (), w2)"
    and w2: "working w2 = working (sync_pairs ?w1)"
      "store_fault w2 = store_fault (sync_pairs ?w1)"
    by blast
  let ?step = "\<lambda>w0. w0\<lparr>ratios_manager := Some (new_ratios_manager w0 (working w0))\<rparr>"
  have "\<not> store_fault (?step w2) OpCommit"
    "distinct (map symbol (coins (working (?step w2))))"
    using store d w1 w2 by (simp_all add: sync_pairs_fields sync_coins_fields)
  from unit_session_commits [of ?step w2, OF this] obtain w3 where
    s3: "db_session (\<lambda>w0. Some (Inr (), ?step w0)) w2 = Some (Inr (), w3)"
    by blast
  from s1 s2 s3 show ?thesis by (simp add: set_coins_def)
qed

lemma coins_after_symbols:
  "distinct (map symbol (coins_after symbols cs)) \<Longrightarrow> distinct (map symbol cs)"
proof -
  assume d: "distinct (map symbol (coins_after symbols cs))"
  obtain loaded added where
    e: "enable_or_add symbols (disable_missing symbols cs) [] = (loaded, added)"
    by (cases "enable_or_add symbols (disable_missing symbols cs) []")
  from enable_or_add_symbols [of symbols "disable_missing symbols cs" "[]"] e
  have "map symbol loaded = map symbol cs"
    by (simp add: disable_missing_def comp_def)
  with d e show ?thesis by (simp add: coins_after_def)
qed

lemma coins_after_synced:
  "distinct (map symbol (coins_after symbols cs)) \<Longrightarrow> coins_after symbols cs = synced symbols cs"
  using sync_result [OF coins_after_symbols] by (simp add: coins_after_def)

lemma coins_after_idem:
  assumes "distinct (map symbol (coins_after symbols cs))"
  shows "coins_after symbols (coins_after symbols cs) = coins_after symbols cs"
proof -
  from assms have a: "coins_after symbols cs = synced symbols cs"
    by (rule coins_after_synced)
  with assms have "distinct (map symbol (synced symbols cs))" by simp
  from sync_result [OF this, of symbols] have
    "coins_after symbols (synced symbols cs) = synced symbols (synced symbols cs)"
    by (simp add: coins_after_def)
  with a show ?thesis by (simp add: synced_idem)
qed

subsection \<open>The value history\<close>

lemma latest_value_member: "latest_value best rs \<in> set (best # rs)"
  by (induction rs arbitrary: best) auto

lemma datetime_id_query_all:
  "set (datetime_id_query dt_format rows) = cv_id ` set rows"
proof
  show "set (datetime_id_query dt_format rows) \<subseteq> cv_id ` set rows"
  proof
    fix i assume "i \<in> set (datetime_id_query dt_format rows)"
    then have "\<exists>g \<in> set (group_by_key (grouping_key dt_format) rows).
        \<exists>r rs. g = r # rs \<and> i = cv_id (latest_value r rs)"
      by (auto simp: datetime_id_query_def split: list.splits)
    then obtain g r rs where g: "g \<in> set (group_by_key (grouping_key dt_format) rows)"
      and gr: "g = r # rs" and i: "i = cv_id (latest_value r rs)"
      by blast
    from g have "set g \<subseteq> set rows" by (auto simp: group_by_key_def)
    with latest_value_member [of r rs] gr have "latest_value r rs \<in> set rows"
      by auto
    with i show "i \<in> cv_id ` set rows" by blast
  qed
next
  show "cv_id ` set rows \<subseteq> set (datetime_id_query dt_format rows)"
  proof
    fix i assume "i \<in> cv_id ` set rows"
    then obtain r where r: "r \<in> set rows" and i: "i = cv_id r" by blast
    let ?k = "grouping_key dt_format r"
    let ?g = "filter (\<lambda>x. grouping_key dt_format x = ?k) rows"
    from r have "r \<in> set ?g" by simp
    then obtain x xs where g: "?g = x # xs" by (cases ?g) auto
    have same: "\<forall>y \<in> set ?g. y = r" by (auto simp: grouping_key_def)
    from latest_value_member [of x xs] g same have l: "latest_value x xs = r"
      by metis
    from r have "?k \<in> set (remdups (map (grouping_key dt_format) rows))" by simp
    with g l i show "i \<in> set (datetime_id_query dt_format rows)"
      by (force simp: datetime_id_query_def group_by_key_def)
  qed
qed

lemma update_query_all:
  "update_query dt_format iv rows = map (\<lambda>r. r\<lparr>cv_interval := iv\<rparr>) rows"
  by (simp add: update_query_def datetime_id_query_all)

lemma and_then_success:
  "and_then f g w = (Inr u, w') \<Longrightarrow> \<exists>w1. f w = (Inr (), w1) \<and> g w1 = (Inr u, w')"
  by (auto simp: and_then_def split: prod.splits sum.splits)

lemma execute_update_query_success:
  assumes "execute_update_query dt_format iv w = (Inr u, w1)"
  shows "w1 = emit_event (UpdateInterval iv)
           (w\<lparr>working := (working w)\<lparr>coin_values :=
                map (\<lambda>r. r\<lparr>cv_interval := iv\<rparr>) (coin_values (working w))\<rparr>\<rparr>)"
  using assms by (auto simp: execute_update_query_def update_query_all split: if_splits)

lemma reclassify_success:
  assumes "reclassify w = (Inr u, w')"
  shows "coin_values (working w')
           = map (\<lambda>r. r\<lparr>cv_interval := WEEKLY\<rparr>) (coin_values (working w))
       \<and> durable w' = working w'
       \<and> events w' = events w
           @ [UpdateInterval HOURLY, UpdateInterval DAILY, UpdateInterval WEEKLY, Commit]
       \<and> ticks w' = ticks w \<and> clock w' = clock w \<and> store_fault w' = store_fault w
       \<and> coins (working w') = coins (working w)"
proof -
  from assms obtain w1 w2 w3 where
    a: "execute_update_query ''%H'' HOURLY w = (Inr (), w1)"
    and b: "execute_update_query ''%Y-%j'' DAILY w1 = (Inr (), w2)"
    and c: "execute_update_query ''%Y-%W'' WEEKLY w2 = (Inr (), w3)"
    and d: "session_commit w3 = (Inr u, w')"
    unfolding reclassify_def by (blast dest: and_then_success)
  note a' = execute_update_query_success [OF a]
  note b' = execute_update_query_success [OF b]
  note c' = execute_update_query_success [OF c]
  note d' = session_commit_ok [OF d]
  show ?thesis
    unfolding d' c' b' a' by (simp add: emit_event_def comp_def)
qed

lemma strftime_demo:
  "strftime ''%H'' (demo_time 0) = ''10''"
  "strftime ''%Y-%j'' (demo_time 0) = ''2024-075''"
  "strftime ''%Y-%W'' (demo_time 0) = ''2024-11''"
  by (simp_all add: directive_def demo_time_def days_after_jan01_def days_after_monday_def
      days_before_year_def days_in_month_def is_leap_def digit_char_def pad2_def pad3_def
      pad4_def)

lemma demo_cutoffs:
  assumes "clock w = demo_time" "ticks w = 0"
  shows "minus_one_day (clock w (ticks w)) = Inr demo_day_ago"
    and "minus_one_month (clock w (Suc (ticks w))) = Inr demo_month_ago"
    and "minus_one_year (clock w (Suc (Suc (ticks w)))) = Inr demo_year_ago"
  using assms
  by (simp_all add: minus_one_day_def minus_one_month_def minus_one_year_def demo_time_def
      days_in_month_def is_leap_def demo_day_ago_def demo_month_ago_def demo_year_ago_def)

lemma delete_step_success:
  assumes "delete_step back iv w = (Inr u, w1)"
  shows "\<exists>c. back (clock w (ticks w)) = Inr c
           \<and> coin_values (working w1) = delete_older iv c (coin_values (working w))
           \<and> events w1 = events w @ [DeleteInterval iv c]
           \<and> ticks w1 = Suc (ticks w) \<and> clock w1 = clock w
           \<and> store_fault w1 = store_fault w \<and> coins (working w1) = coins (working w)"
  using assms
  by (auto simp: delete_step_def now_def execute_delete_older_def emit_event_def
      split: sum.splits if_splits)

lemma delete_older_thrice:
  "delete_older DAILY c3 (delete_older HOURLY c2 (delete_older MINUTELY c1 rows))
     = filter (\<lambda>r. \<not> expired c1 c2 c3 r) rows"
  by (auto simp: delete_older_def expired_def intro: filter_cong)

lemma prune_success:
  assumes "prune w = (Inr u, w')"
  shows "\<exists>c1 c2 c3.
           minus_one_day (clock w (ticks w)) = Inr c1
         \<and> minus_one_month (clock w (Suc (ticks w))) = Inr c2
         \<and> minus_one_year (clock w (Suc (Suc (ticks w)))) = Inr c3
         \<and> events w' = events w @ [DeleteInterval MINUTELY c1, DeleteInterval HOURLY c2,
                                    DeleteInterval DAILY c3]
         \<and> coin_values (working w') = filter (\<lambda>r. \<not> expired c1 c2 c3 r) (coin_values (working w))
         \<and> store_fault w' = store_fault w \<and> coins (working w') = coins (working w)"
proof -
  from assms obtain w1 w2 where
    a: "delete_step minus_one_day MINUTELY w = (Inr (), w1)"
    and b: "delete_step minus_one_month HOURLY w1 = (Inr (), w2)"
    and c: "delete_step minus_one_year DAILY w2 = (Inr u, w')"
    unfolding prune_def by (blast dest: and_then_success)
  from delete_step_success [OF a] obtain c1 where
    a': "minus_one_day (clock w (ticks w)) = Inr c1"
      "coin_values (working w1) = delete_older MINUTELY c1 (coin_values (working w))"
      "events w1 = events w @ [DeleteInterval MINUTELY c1]"
      "ticks w1 = Suc (ticks w)" "clock w1 = clock w"
      "store_fault w1 = store_fault w" "coins (working w1) = coins (working w)"
    by blast
  from delete_step_success [OF b] obtain c2 where
    b': "minus_one_month (clock w1 (ticks w1)) = Inr c2"
      "coin_values (working w2) = delete_older HOURLY c2 (coin_values (working w1))"
      "events w2 = events w1 @ [DeleteInterval HOURLY c2]"
      "ticks w2 = Suc (ticks w1)" "clock w2 = clock w1"
      "store_fault w2 = store_fault w1" "coins (working w2) = coins (working w1)"
    by blast
  from delete_step_success [OF c] obtain c3 where
    c': "minus_one_year (clock w2 (ticks w2)) = Inr c3"
      "coin_values (working w') = delete_older DAILY c3 (coin_values (working w2))"
      "events w' = events w2 @ [DeleteInterval DAILY c3]"
      "store_fault w' = store_fault w2" "coins (working w') = coins (working w2)"
    by blast
  from a' b' c' have "coin_values (working w')
      = filter (\<lambda>r. \<not> expired c1 c2 c3 r) (coin_values (working w))"
    by (simp add: delete_older_thrice)
  with a' b' c' show ?thesis by simp
qed

lemma prune_value_history_success:
  assumes "prune_value_history w = Some (Inr (), w')"
  shows "\<exists>w1 w2. reclassify w = (Inr (), w1) \<and> prune w1 = (Inr (), w2)
           \<and> durable w' = working w2 \<and> events w' = events w2 @ [Commit, Close]"
proof -
  let ?body = "\<lambda>w0. Some (and_then reclassify prune w0)"
  from assms have run: "db_session ?body w = Some (Inr (), w')"
    by (simp add: prune_value_history_def)
  from db_session_success [of ?body w "()" w', OF run] obtain w2 where
    b: "and_then reclassify prune w = (Inr (), w2)"
    and w': "w' = session_close (emit_event Commit (w2\<lparr>durable := working w2\<rparr>))"
    by auto
  from and_then_success [OF b] obtain w1 where
    "reclassify w = (Inr (), w1)" "prune w1 = (Inr (), w2)" by blast
  with w' show ?thesis by (auto simp: closed_fields)
qed

lemma demo_mixed_fields:
  "coin_values (working demo_mixed) = demo_mixed_rows"
  "clock demo_mixed = demo_time" "ticks demo_mixed = 0"
  "store_fault demo_mixed = (\<lambda>op. False)" "events demo_mixed = []"
  by (simp_all add: demo_mixed_def demo_world_def empty_database_def)

lemma demo_mixed_expired:
  "filter (\<lambda>r. \<not> expired demo_day_ago demo_month_ago demo_year_ago r) demo_mixed_rows
     = [demo_sample 2 MINUTELY ((demo_time 0)\<lparr>hour := 9\<rparr>),
        demo_sample 5 WEEKLY ((demo_time 0)\<lparr>year := 2018\<rparr>),
        demo_sample 6 HOURLY ((demo_time 0)\<lparr>day := 1\<rparr>)]"
  by (simp add: demo_mixed_rows_def demo_sample_def expired_def dt_less_def dt_key_def
      demo_time_def demo_day_ago_def demo_month_ago_def demo_year_ago_def)

lemma demo_values_fields:
  "coin_values (working demo_values) = demo_raw_hour"
  "clock demo_values = demo_time" "ticks demo_values = 0"
  "store_fault demo_values = (\<lambda>op. False)" "events demo_values = []"
  "coins (working demo_values) = []"
  by (simp_all add: demo_values_def demo_world_def empty_database_def)

lemma reclassify_returns:
  assumes "\<not> store_fault w OpExecute" "\<not> store_fault w OpCommit"
    "distinct (map symbol (coins (working w)))"
  shows "\<exists>w'. reclassify w = (Inr (), w')"
  using assms
  by (simp add: reclassify_def and_then_def execute_update_query_def session_commit_def
      emit_event_def)

lemma prune_value_history_returns:
  assumes store: "\<not> store_fault w OpExecute" "\<not> store_fault w OpCommit"
    "distinct (map symbol (coins (working w)))"
    and c: "minus_one_day (clock w (ticks w)) = Inr c1"
      "minus_one_month (clock w (Suc (ticks w))) = Inr c2"
      "minus_one_year (clock w (Suc (Suc (ticks w)))) = Inr c3"
  shows "\<exists>w'. prune_value_history w = Some (Inr (), w')"
proof -
  from reclassify_returns [OF store] obtain w1 where r: "reclassify w = (Inr (), w1)"
    by blast
  note f = reclassify_success [OF r]
  from f store c have "\<exists>w2. prune w1 = (Inr (), w2) \<and> store_fault w2 = store_fault w
      \<and> coins (working w2) = coins (working w)"
    by (simp add: prune_def and_then_def delete_step_def now_def execute_delete_older_def
        emit_event_def)
  then obtain w2 where p: "prune w1 = (Inr (), w2)" "store_fault w2 = store_fault w"
    "coins (working w2) = coins (working w)" by blast
  from r p have b: "and_then reclassify prune w = (Inr (), w2)"
    by (simp add: and_then_def)
  from p store have "\<not> store_fault w2 OpCommit" "distinct (map symbol (coins (working w2)))"
    by simp_all
  from db_session_commits [of "\<lambda>w0. Some (and_then reclassify prune w0)" w "()" w2, OF _ this] b
  show ?thesis by (simp add: prune_value_history_def)
qed

lemma prune_returns:
  assumes store: "\<not> store_fault w OpExecute"
    and c: "minus_one_day (clock w (ticks w)) = Inr c1"
      "minus_one_month (clock w (Suc (ticks w))) = Inr c2"
      "minus_one_year (clock w (Suc (Suc (ticks w)))) = Inr c3"
  shows "\<exists>w'. prune w = (Inr (), w')"
  using assms
  by (simp add: prune_def and_then_def delete_step_def now_def execute_delete_older_def
      emit_event_def)

lemma update_query_untagged:
  "map untagged (update_query dt_format iv rows) = map untagged rows"
  by (simp add: update_query_def untagged_def comp_def)

lemma demo_raw_hour_latest:
  "latest_in_bucket dt_format demo_raw_hour
     (demo_sample 3 MINUTELY ((demo_time 0)\<lparr>minute := 20\<rparr>))"
  by (simp add: latest_in_bucket_def demo_raw_hour_def demo_sample_def dt_less_def dt_key_def
      demo_time_def)

section \<open>Claims\<close>

text \<open>
  C1. \<^verbatim>\<open>commit_ratios\<close> with a ratio matrix \<open>rm\<close>. With no dirty cell it does nothing.
  With dirty cells it always returns, and
  \<^item> when it returns normally, the transaction has been committed and closed, the pair
    rows are the same rows as before, every durable row whose key is the pair identity
    of a dirty cell holds that cell's ratio (for a matrix that gives distinct cells
    distinct identities), every other row is untouched, and the dirty set is empty;
  \<^item> when it raises, whether in the batched update or in the commit, the ratio matrix
    is exactly as before, dirty set included, and nothing has become durable.
  So the dirty set is only ever cleared after the commit of the values.
\<close>

theorem commit_ratios_write_then_clear:
  assumes "ratios_manager w = Some rm"
  shows
    "(dirty rm = [] \<longrightarrow> commit_ratios w = Some (Inr (), w))
   \<and> (dirty rm \<noteq> [] \<longrightarrow>
        (\<forall>w'. commit_ratios w = Some (Inr (), w') \<longrightarrow>
            events w' = events w @ [Commit, Close]
          \<and> map pair_id (pairs (durable w')) = map pair_id (pairs (working w))
          \<and> (inj_on (rm_pair_id rm) (set (dirty rm)) \<longrightarrow>
               (\<forall>c \<in> set (dirty rm). \<forall>p \<in> set (pairs (durable w')).
                  pair_id p = rm_pair_id rm c \<longrightarrow> ratio p = Some (rm_ratio rm c)))
          \<and> (\<forall>p \<in> set (pairs (durable w')).
                pair_id p \<notin> rm_pair_id rm ` set (dirty rm) \<longrightarrow> p \<in> set (pairs (working w)))
          \<and> ratios_manager w' = Some (rm\<lparr>dirty := []\<rparr>)))
   \<and> (\<forall>e w'. commit_ratios w = Some (Inl e, w') \<longrightarrow>
          ratios_manager w' = Some rm \<and> durable w' = durable w)
   \<and> commit_ratios w \<noteq> None"
proof (intro conjI impI allI)
  assume "dirty rm = []"
  with assms show "commit_ratios w = Some (Inr (), w)"
    by (simp add: commit_ratios_def)
next
  fix w'
  assume ne: "dirty rm \<noteq> []" and run: "commit_ratios w = Some (Inr (), w')"
  note ok = commit_ratios_success [OF assms ne run]
  from ok show "events w' = events w @ [Commit, Close]" by simp
  from ok show "map pair_id (pairs (durable w')) = map pair_id (pairs (working w))"
    by (simp add: update_ratios_ids)
  from ok show "ratios_manager w' = Some (rm\<lparr>dirty := []\<rparr>)" by simp
  show "\<forall>p \<in> set (pairs (durable w')).
          pair_id p \<notin> rm_pair_id rm ` set (dirty rm) \<longrightarrow> p \<in> set (pairs (working w))"
  proof (intro ballI impI)
    fix p
    assume p: "p \<in> set (pairs (durable w'))"
      and miss: "pair_id p \<notin> rm_pair_id rm ` set (dirty rm)"
    from p ok have "p \<in> set (update_ratios
        (map (\<lambda>cell. (rm_pair_id rm cell, rm_ratio rm cell)) (dirty rm)) (pairs (working w)))"
      by simp
    then show "p \<in> set (pairs (working w))"
      using miss by (rule update_ratios_untouched)
  qed
  assume inj: "inj_on (rm_pair_id rm) (set (dirty rm))"
  show "\<forall>c \<in> set (dirty rm). \<forall>p \<in> set (pairs (durable w')).
          pair_id p = rm_pair_id rm c \<longrightarrow> ratio p = Some (rm_ratio rm c)"
  proof (intro ballI impI)
    fix c p
    assume c: "c \<in> set (dirty rm)" and p: "p \<in> set (pairs (durable w'))"
      and id: "pair_id p = rm_pair_id rm c"
    from p ok have "p \<in> set (update_ratios
        (map (\<lambda>cell. (rm_pair_id rm cell, rm_ratio rm cell)) (dirty rm)) (pairs (working w)))"
      by simp
    with inj c show "ratio p = Some (rm_ratio rm c)"
      using id by (rule update_ratios_written)
  qed
next
  fix e w'
  assume "commit_ratios w = Some (Inl e, w')"
  with assms have "ratios_manager w' = Some rm \<and> durable w' = durable w \<and> events w' = events w"
    by (rule commit_ratios_failure)
  then show "ratios_manager w' = Some rm" and "durable w' = durable w" by simp_all
next
  show "commit_ratios w \<noteq> None" by (rule commit_ratios_returns)
qed

theorem commit_ratios_write_then_clear_witness:
  "fst (the (commit_ratios demo_sync_world)) = Inr ()
   \<and> map ratio (pairs (durable (snd (the (commit_ratios demo_sync_world))))) = [Some 2, None]
   \<and> map_option dirty (ratios_manager (snd (the (commit_ratios demo_sync_world)))) = Some []
   \<and> fst (the (commit_ratios demo_execute_fault)) = Inl OperationalError
   \<and> map_option dirty (ratios_manager (snd (the (commit_ratios demo_execute_fault))))
       = Some [(2, 3)]
   \<and> pairs (durable (snd (the (commit_ratios demo_execute_fault)))) = demo_pairs"
proof -
  define w1 where "w1 = snd (the (commit_ratios demo_sync_world))"
  define w2 where "w2 = snd (the (commit_ratios demo_execute_fault))"
  have rm: "ratios_manager demo_sync_world = Some demo_dirty_ratios"
    "ratios_manager demo_execute_fault = Some demo_dirty_ratios"
    by (simp_all add: demo_sync_world_def demo_execute_fault_def)
  have d: "dirty demo_dirty_ratios = [(2, 3)]" "rm_pair_id demo_dirty_ratios (2, 3) = 10"
    "rm_ratio demo_dirty_ratios (2, 3) = 2"
    by (simp_all add: demo_dirty_ratios_def)
  have start: "pairs (working demo_sync_world) = demo_pairs"
    "pairs (durable demo_execute_fault) = demo_pairs"
    by (simp_all add: demo_sync_world_def demo_execute_fault_def empty_database_def)
  have run1: "commit_ratios demo_sync_world = Some (Inr (), w1)"
    unfolding w1_def
    by (simp add: commit_ratios_def db_session_def execute_update_ratios_def
        session_commit_def session_close_def emit_event_def demo_sync_world_def
        demo_world_def empty_database_def demo_dirty_ratios_def)
  have run2: "commit_ratios demo_execute_fault = Some (Inl OperationalError, w2)"
    unfolding w2_def
    by (simp add: commit_ratios_def db_session_def execute_update_ratios_def
        session_commit_def session_close_def emit_event_def demo_sync_world_def
        demo_execute_fault_def demo_world_def empty_database_def demo_dirty_ratios_def)
  have ne: "dirty demo_dirty_ratios \<noteq> []" and
    inj: "inj_on (rm_pair_id demo_dirty_ratios) (set (dirty demo_dirty_ratios))"
    by (simp_all add: d)
  from commit_ratios_write_then_clear [OF rm(1)] ne run1 inj
  have ids: "map pair_id (pairs (durable w1)) = map pair_id (pairs (working demo_sync_world))"
    and hit: "\<forall>c \<in> set (dirty demo_dirty_ratios). \<forall>p \<in> set (pairs (durable w1)).
                pair_id p = rm_pair_id demo_dirty_ratios c
                  \<longrightarrow> ratio p = Some (rm_ratio demo_dirty_ratios c)"
    and miss: "\<forall>p \<in> set (pairs (durable w1)).
                pair_id p \<notin> rm_pair_id demo_dirty_ratios ` set (dirty demo_dirty_ratios)
                  \<longrightarrow> p \<in> set (pairs (working demo_sync_world))"
    and clean: "ratios_manager w1 = Some (demo_dirty_ratios\<lparr>dirty := []\<rparr>)"
    by blast+
  from commit_ratios_write_then_clear [OF rm(2)] run2
  have kept: "ratios_manager w2 = Some demo_dirty_ratios"
    and same: "durable w2 = durable demo_execute_fault"
    by blast+
  from ids obtain p q where pq: "pairs (durable w1) = [p, q]" "pair_id p = 10" "pair_id q = 20"
    by (auto simp: start demo_pairs_def)
  from hit pq have "ratio p = Some 2" by (simp add: d)
  moreover from miss pq have "q \<in> set demo_pairs" by (simp add: d start)
  with pq have "ratio q = None" by (auto simp: demo_pairs_def)
  ultimately have "map ratio (pairs (durable w1)) = [Some 2, None]"
    using pq by simp
  moreover from same have "pairs (durable w2) = demo_pairs" by (simp add: start)
  moreover from run1 have "fst (the (commit_ratios demo_sync_world)) = Inr ()" by simp
  moreover from run2 have "fst (the (commit_ratios demo_execute_fault)) = Inl OperationalError"
    by simp
  ultimately show ?thesis
    using clean kept by (simp add: w1_def w2_def d)
qed




text \<open>
  C3, as the code has it. Neither transition looks at the state of the trade. For a
  trade that exists, in whatever state, on a store that accepts the commit and with a
  relay that returns, \<^verbatim>\<open>set_complete\<close> records the amount, sets the state to
  \<^verbatim>\<open>COMPLETE\<close> and returns normally, and \<^verbatim>\<open>set_ordered\<close> records its three values,
  sets the state to \<^verbatim>\<open>ORDERED\<close> and returns normally; no other trade is changed.
\<close>

theorem trade_transitions_accept_any_state:
  assumes row: "find (\<lambda>t. trade_id t = tl_trade tlog) (trades (working w)) = Some t0"
    and relay: "api_session w \<noteq> None"
    and store: "\<not> store_fault w OpCommit" "distinct (map symbol (coins (working w)))"
  shows "(\<exists>w'. set_complete tlog amount w = Some (Inr (), w')
            \<and> trades (durable w')
                = map (\<lambda>t. if trade_id t = tl_trade tlog
                           then t\<lparr>crypto_trade_amount := Some amount, trade_state := COMPLETE\<rparr>
                           else t) (trades (working w)))
       \<and> (\<exists>w'. set_ordered tlog alt_start crypto_start alt_amount w = Some (Inr (), w')
            \<and> trades (durable w')
                = map (\<lambda>t. if trade_id t = tl_trade tlog
                           then t\<lparr>alt_starting_balance := Some alt_start,
                                   alt_trade_amount := Some alt_amount,
                                   crypto_starting_balance := Some crypto_start,
                                   trade_state := ORDERED\<rparr>
                           else t) (trades (working w)))"
proof
  from trade_session_returns [OF row relay store] obtain w' where
    run: "set_complete tlog amount w = Some (Inr (), w')"
    unfolding set_complete_body by blast
  from trade_session_success [OF run [unfolded set_complete_body]] run
  show "\<exists>w'. set_complete tlog amount w = Some (Inr (), w')
          \<and> trades (durable w')
              = map (\<lambda>t. if trade_id t = tl_trade tlog
                         then t\<lparr>crypto_trade_amount := Some amount, trade_state := COMPLETE\<rparr>
                         else t) (trades (working w))"
    by auto
next
  from trade_session_returns [OF row relay store] obtain w' where
    run: "set_ordered tlog alt_start crypto_start alt_amount w = Some (Inr (), w')"
    unfolding set_ordered_body by blast
  from trade_session_success [OF run [unfolded set_ordered_body]] run
  show "\<exists>w'. set_ordered tlog alt_start crypto_start alt_amount w = Some (Inr (), w')
          \<and> trades (durable w')
              = map (\<lambda>t. if trade_id t = tl_trade tlog
                         then t\<lparr>alt_starting_balance := Some alt_start,
                                 alt_trade_amount := Some alt_amount,
                                 crypto_starting_balance := Some crypto_start,
                                 trade_state := ORDERED\<rparr>
                         else t) (trades (working w))"
    by auto
qed

theorem trade_transitions_accept_any_state_witness:
  "find (\<lambda>t. trade_id t = tl_trade demo_handle) (trades (working demo_started))
     = Some (new_trade ''ETH'' ''BTC'' False (demo_time 0) 1)
   \<and> trade_state (new_trade ''ETH'' ''BTC'' False (demo_time 0) 1) = INITIAL
   \<and> fst (the (set_complete demo_handle 5 demo_started)) = Inr ()
   \<and> map trade_state (trades (durable (snd (the (set_complete demo_handle 5 demo_started)))))
       = [COMPLETE]
   \<and> fst (the (set_ordered demo_handle 1 2 3 demo_started)) = Inr ()
   \<and> map trade_state (trades (durable (snd (the (set_ordered demo_handle 1 2 3 demo_started)))))
       = [ORDERED]"
proof -
  have row: "find (\<lambda>t. trade_id t = tl_trade demo_handle) (trades (working demo_started))
               = Some (new_trade ''ETH'' ''BTC'' False (demo_time 0) 1)"
    by (simp add: demo_started_fields demo_handle_def new_trade_def)
  have relay: "api_session demo_started \<noteq> None"
    by (simp add: api_session_None_iff demo_started_fields)
  have store: "\<not> store_fault demo_started OpCommit"
    "distinct (map symbol (coins (working demo_started)))"
    by (simp_all add: demo_started_fields)
  note th = trade_transitions_accept_any_state [OF row relay store, of 5 1 2 3]
  from th obtain w1 where run1: "set_complete demo_handle 5 demo_started = Some (Inr (), w1)"
    and t1: "map trade_state (trades (durable w1)) = [COMPLETE]"
    by (auto simp: demo_started_fields demo_handle_def new_trade_def)
  from th obtain w2 where run2: "set_ordered demo_handle 1 2 3 demo_started = Some (Inr (), w2)"
    and t2: "map trade_state (trades (durable w2)) = [ORDERED]"
    by (auto simp: demo_started_fields demo_handle_def new_trade_def)
  from row run1 t1 run2 t2 show ?thesis by (simp add: new_trade_def)
qed

text \<open>
  C3 as stated fails. A trade is started and is in \<^verbatim>\<open>INITIAL\<close>; \<^verbatim>\<open>set_complete\<close> on it
  returns normally and the durable row is \<^verbatim>\<open>COMPLETE\<close>; a second \<^verbatim>\<open>set_complete\<close> on
  the now terminal trade returns normally again and overwrites the recorded amount.
\<close>

theorem set_complete_on_initial_counterexample:
  "fst (the (start_trade_log ''ETH'' ''BTC'' False demo_world)) = Inr demo_handle
   \<and> map trade_state (trades (durable demo_started)) = [INITIAL]
   \<and> fst (the (set_complete demo_handle 5 demo_started)) = Inr ()
   \<and> map trade_state (trades (durable (snd (the (set_complete demo_handle 5 demo_started)))))
       = [COMPLETE]
   \<and> fst (the (set_complete demo_handle 7 (snd (the (set_complete demo_handle 5 demo_started)))))
       = Inr ()
   \<and> map crypto_trade_amount (trades (durable
        (snd (the (set_complete demo_handle 7
           (snd (the (set_complete demo_handle 5 demo_started)))))))) = [Some 7]"
proof -
  define w1 where "w1 = snd (the (set_complete demo_handle 5 demo_started))"
  have run1: "set_complete demo_handle 5 demo_started = Some (Inr (), w1)"
    and f1: "trades (durable w1) = [(new_trade ''ETH'' ''BTC'' False (demo_time 0) 1)
               \<lparr>crypto_trade_amount := Some 5, trade_state := COMPLETE\<rparr>]"
    and g1: "trades (working w1) = trades (durable w1)" "coins (working w1) = []"
      "store_fault w1 = (\<lambda>op. False)" "client_connected w1 = False" "connect_refused w1 = True"
    unfolding w1_def
    by (simp_all add: set_complete_def db_session_def merge_trade_def update_trade_def
        send_update_def api_session_def client_connect_def session_commit_def
        session_close_def emit_event_def demo_started_fields demo_handle_def new_trade_def)
  have run2: "fst (the (set_complete demo_handle 7 w1)) = Inr ()"
    and f2: "map crypto_trade_amount (trades (durable (snd (the (set_complete demo_handle 7 w1)))))
               = [Some 7]"
    by (simp_all add: set_complete_def db_session_def merge_trade_def update_trade_def
        send_update_def api_session_def client_connect_def session_commit_def
        session_close_def emit_event_def f1 g1 demo_handle_def new_trade_def)
  from demo_started_eval run1 f1 run2 f2 show ?thesis
    by (simp add: w1_def [symmetric] demo_started_fields new_trade_def)
qed

text \<open>
  C4, as the code has it. The operations that call \<^verbatim>\<open>send_update\<close> do so inside their
  \<^verbatim>\<open>with\<close> block: whenever \<^verbatim>\<open>TradeLog.__init__\<close>, \<^verbatim>\<open>set_ordered\<close>, \<^verbatim>\<open>set_complete\<close> or
  \<^verbatim>\<open>set_current_coin\<close> returns normally, the events it added hold exactly one
  notification (an emit, or the warning that replaces it), and that notification is
  followed at once by the commit and the close of the transaction, so it precedes the
  commit. \<^verbatim>\<open>commit_ratios\<close> and \<^verbatim>\<open>prune_value_history\<close> add no notification at all,
  however they end.
\<close>

theorem notification_inside_transaction:
  "(start_trade_log from_coin to_coin sell w = Some (Inr tlog', w1)
      \<longrightarrow> notified_then_committed (new_events w w1))
   \<and> (set_ordered tlog alt_start crypto_start alt_amount w = Some (Inr (), w2)
      \<longrightarrow> notified_then_committed (new_events w w2))
   \<and> (set_complete tlog crypto_amount w = Some (Inr (), w3)
      \<longrightarrow> notified_then_committed (new_events w w3))
   \<and> (set_current_coin arg w = Some (Inr (), w4)
      \<longrightarrow> notified_then_committed (new_events w w4))
   \<and> (commit_ratios w = Some (r5, w5) \<longrightarrow> filter is_notification (new_events w w5) = [])
   \<and> (prune_value_history w = Some (r6, w6)
      \<longrightarrow> filter is_notification (new_events w w6) = [])"
proof (intro conjI impI)
  assume "start_trade_log from_coin to_coin sell w = Some (Inr tlog', w1)"
  then show "notified_then_committed (new_events w w1)" by (rule start_trade_log_notifies)
next
  assume "set_ordered tlog alt_start crypto_start alt_amount w = Some (Inr (), w2)"
  then show "notified_then_committed (new_events w w2)"
    unfolding set_ordered_body by (rule trade_session_notifies)
next
  assume "set_complete tlog crypto_amount w = Some (Inr (), w3)"
  then show "notified_then_committed (new_events w w3)"
    unfolding set_complete_body by (rule trade_session_notifies)
next
  assume "set_current_coin arg w = Some (Inr (), w4)"
  then show "notified_then_committed (new_events w w4)" by (rule set_current_coin_notifies)
next
  assume "commit_ratios w = Some (r5, w5)"
  then show "filter is_notification (new_events w w5) = []" by (rule commit_ratios_quiet)
next
  assume "prune_value_history w = Some (r6, w6)"
  then show "filter is_notification (new_events w w6) = []" by (rule prune_value_history_quiet)
qed

theorem notification_inside_transaction_witness:
  "fst (the (start_trade_log ''ETH'' ''BTC'' False demo_world)) = Inr demo_handle
   \<and> notified_then_committed (new_events demo_world demo_started)
   \<and> fst (the (set_ordered demo_handle 1 2 3 demo_started)) = Inr ()
   \<and> notified_then_committed (new_events demo_started
        (snd (the (set_ordered demo_handle 1 2 3 demo_started))))
   \<and> fst (the (set_complete demo_handle 5 demo_started)) = Inr ()
   \<and> notified_then_committed (new_events demo_started
        (snd (the (set_complete demo_handle 5 demo_started))))
   \<and> fst (the (set_current_coin (BySymbol ''BTC'') demo_btc_world)) = Inr ()
   \<and> notified_then_committed (new_events demo_btc_world
        (snd (the (set_current_coin (BySymbol ''BTC'') demo_btc_world))))
   \<and> fst (the (commit_ratios demo_sync_world)) = Inr ()
   \<and> filter is_notification (new_events demo_sync_world
        (snd (the (commit_ratios demo_sync_world)))) = []
   \<and> fst (the (prune_value_history demo_world)) = Inr ()
   \<and> filter is_notification (new_events demo_world
        (snd (the (prune_value_history demo_world)))) = []"
proof -
  define w2 where "w2 = snd (the (set_ordered demo_handle 1 2 3 demo_started))"
  define w3 where "w3 = snd (the (set_complete demo_handle 5 demo_started))"
  define w4 where "w4 = snd (the (set_current_coin (BySymbol ''BTC'') demo_btc_world))"
  define w5 where "w5 = snd (the (commit_ratios demo_sync_world))"
  define w6 where "w6 = snd (the (prune_value_history demo_world))"
  have run2: "set_ordered demo_handle 1 2 3 demo_started = Some (Inr (), w2)"
    unfolding w2_def
    by (simp add: set_ordered_def merge_trade_def update_trade_def demo_started_fields
        demo_handle_def new_trade_def session_defs relay_defs)
  have run3: "set_complete demo_handle 5 demo_started = Some (Inr (), w3)"
    unfolding w3_def
    by (simp add: set_complete_def merge_trade_def update_trade_def demo_started_fields
        demo_handle_def new_trade_def session_defs relay_defs)
  have run4: "set_current_coin (BySymbol ''BTC'') demo_btc_world = Some (Inr (), w4)"
    unfolding w4_def
    by (simp add: set_current_coin_def get_coin_def merge_coin_def session_attach_def
        session_expunge_def session_add_current_coin_def new_current_coin_def
        demo_btc_world_def new_coin_def demo_world_def empty_database_def
        session_defs relay_defs)
  have run5: "commit_ratios demo_sync_world = Some (Inr (), w5)"
    unfolding w5_def
    by (simp add: commit_ratios_def execute_update_ratios_def demo_sync_world_def
        demo_dirty_ratios_def demo_world_def empty_database_def session_defs)
  have run6: "prune_value_history demo_world = Some (Inr (), w6)"
    unfolding w6_def
    by (simp add: prune_value_history_def and_then_def reclassify_def prune_def
        execute_update_query_def delete_step_def execute_delete_older_def
        minus_one_day_def minus_one_month_def minus_one_year_def demo_time_def
        demo_world_def empty_database_def session_defs)
  from notification_inside_transaction
    [where w = demo_world and from_coin = "''ETH''" and to_coin = "''BTC''" and sell = False
       and tlog' = demo_handle and ?w1.0 = demo_started and ?r6.0 = "Inr ()" and ?w6.0 = w6]
    demo_started_eval run6
  have a: "notified_then_committed (new_events demo_world demo_started)"
    and f: "filter is_notification (new_events demo_world w6) = []"
    by blast+
  from notification_inside_transaction
    [where w = demo_started and tlog = demo_handle and alt_start = 1 and crypto_start = 2
       and alt_amount = 3 and ?w2.0 = w2 and crypto_amount = 5 and ?w3.0 = w3]
    run2 run3
  have b: "notified_then_committed (new_events demo_started w2)"
    and c: "notified_then_committed (new_events demo_started w3)"
    by blast+
  from notification_inside_transaction
    [where w = demo_btc_world and arg = "BySymbol ''BTC''" and ?w4.0 = w4] run4
  have d: "notified_then_committed (new_events demo_btc_world w4)"
    by blast
  from notification_inside_transaction
    [where w = demo_sync_world and ?r5.0 = "Inr ()" and ?w5.0 = w5] run5
  have e: "filter is_notification (new_events demo_sync_world w5) = []"
    by blast
  from demo_started_eval run2 run3 run4 run5 run6 a b c d e f show ?thesis
    by (simp add: w2_def [symmetric] w3_def [symmetric] w4_def [symmetric]
        w5_def [symmetric] w6_def [symmetric])
qed

text \<open>
  C4 as stated fails. With the gateway connected, \<^verbatim>\<open>set_ordered\<close> emits the update and
  only then commits; \<^verbatim>\<open>set_current_coin\<close> by symbol warns before the commit of the
  transaction that adds the row; \<^verbatim>\<open>commit_ratios\<close> makes a ratio durable and notifies
  nobody.
\<close>

theorem notification_before_commit_counterexample:
  "fst (the (set_ordered demo_handle 1 2 3 demo_online_started)) = Inr ()
   \<and> new_events demo_online_started
        (snd (the (set_ordered demo_handle 1 2 3 demo_online_started)))
       = [Emit TradeT, Commit, Close]
   \<and> fst (the (set_current_coin (BySymbol ''BTC'') demo_btc_world)) = Inr ()
   \<and> events (snd (the (set_current_coin (BySymbol ''BTC'') demo_btc_world)))
       = [Commit, Close, Warning, Commit, Close]
   \<and> fst (the (commit_ratios demo_sync_world)) = Inr ()
   \<and> map ratio (pairs (durable (snd (the (commit_ratios demo_sync_world))))) = [Some 2, None]
   \<and> events (snd (the (commit_ratios demo_sync_world))) = [Commit, Close]"
  by (simp add: set_ordered_def merge_trade_def update_trade_def demo_online_started_def
      demo_started_fields demo_handle_def new_trade_def new_events_def
      set_current_coin_def get_coin_def merge_coin_def session_attach_def session_expunge_def
      session_add_current_coin_def new_current_coin_def demo_btc_world_def new_coin_def
      commit_ratios_def execute_update_ratios_def update_ratios_def set_ratio_def
      demo_sync_world_def demo_dirty_ratios_def demo_pairs_def demo_world_def
      empty_database_def session_defs relay_defs)

text \<open>
  C5. Each reclassifying statement relabels the most recent sample of every
  (coin, formatted timestamp) bucket, whatever tag that sample carries, and changes
  nothing but tags. When the three statements and the commit succeed, they have run
  in the order hourly (\<^verbatim>\<open>%H\<close>), daily (\<^verbatim>\<open>%Y-%j\<close>), weekly (\<^verbatim>\<open>%Y-%W\<close>), each on the
  table as the one before left it, so the most recent sample of every
  (coin, year and week) bucket is stored with the tag weekly.
\<close>

theorem reclassification_relabels_latest:
  "(latest_in_bucket dt_format rows r
      \<longrightarrow> r\<lparr>cv_interval := iv\<rparr> \<in> set (update_query dt_format iv rows))
   \<and> map untagged (update_query dt_format iv rows) = map untagged rows
   \<and> (reclassify w = (Inr (), w') \<longrightarrow>
        new_events w w'
          = [UpdateInterval HOURLY, UpdateInterval DAILY, UpdateInterval WEEKLY, Commit]
        \<and> map untagged (coin_values (durable w')) = map untagged (coin_values (working w))
        \<and> (\<forall>x \<in> set (coin_values (working w)).
              latest_in_bucket ''%Y-%W'' (coin_values (working w)) x
              \<longrightarrow> x\<lparr>cv_interval := WEEKLY\<rparr> \<in> set (coin_values (durable w'))))"
proof (intro conjI impI)
  assume "latest_in_bucket dt_format rows r"
  then have "r \<in> set rows" by (simp add: latest_in_bucket_def)
  then show "r\<lparr>cv_interval := iv\<rparr> \<in> set (update_query dt_format iv rows)"
    by (simp add: update_query_all)
next
  show "map untagged (update_query dt_format iv rows) = map untagged rows"
    by (rule update_query_untagged)
next
  assume r: "reclassify w = (Inr (), w')"
  note f = reclassify_success [OF r]
  from f show "new_events w w'
      = [UpdateInterval HOURLY, UpdateInterval DAILY, UpdateInterval WEEKLY, Commit]"
    by (simp add: new_events_def)
  from f show "map untagged (coin_values (durable w')) = map untagged (coin_values (working w))"
    by (simp add: untagged_def comp_def)
  from f show "\<forall>x \<in> set (coin_values (working w)).
      latest_in_bucket ''%Y-%W'' (coin_values (working w)) x
      \<longrightarrow> x\<lparr>cv_interval := WEEKLY\<rparr> \<in> set (coin_values (durable w'))"
    by simp
qed

theorem reclassification_relabels_latest_witness:
  "demo_sample 3 HOURLY ((demo_time 0)\<lparr>minute := 20\<rparr>)
     \<in> set (update_query ''%H'' HOURLY demo_raw_hour)
   \<and> map cv_id (update_query ''%H'' HOURLY demo_raw_hour) = [1, 2, 3]
   \<and> fst (reclassify demo_values) = Inr ()
   \<and> events (snd (reclassify demo_values))
       = [UpdateInterval HOURLY, UpdateInterval DAILY, UpdateInterval WEEKLY, Commit]
   \<and> demo_sample 3 WEEKLY ((demo_time 0)\<lparr>minute := 20\<rparr>)
       \<in> set (coin_values (durable (snd (reclassify demo_values))))"
proof -
  define w' where "w' = snd (reclassify demo_values)"
  let ?r = "demo_sample 3 MINUTELY ((demo_time 0)\<lparr>minute := 20\<rparr>)"
  have "\<exists>w0. reclassify demo_values = (Inr (), w0)"
    by (rule reclassify_returns) (simp_all add: demo_values_fields)
  then have run: "reclassify demo_values = (Inr (), w')"
    unfolding w'_def by auto
  note t = reclassification_relabels_latest
      [of "''%H''" demo_raw_hour ?r HOURLY demo_values w']
  from t demo_raw_hour_latest [of "''%H''"]
  have a: "?r\<lparr>cv_interval := HOURLY\<rparr> \<in> set (update_query ''%H'' HOURLY demo_raw_hour)"
    by blast
  from t have "map untagged (update_query ''%H'' HOURLY demo_raw_hour)
      = map untagged demo_raw_hour"
    by blast
  then have "map (fst \<circ> untagged) (update_query ''%H'' HOURLY demo_raw_hour)
      = map (fst \<circ> untagged) demo_raw_hour"
    by (simp only: map_map [symmetric])
  then have b: "map cv_id (update_query ''%H'' HOURLY demo_raw_hour) = [1, 2, 3]"
    by (simp add: comp_def untagged_def demo_raw_hour_def demo_sample_def)
  from t run have c: "new_events demo_values w'
        = [UpdateInterval HOURLY, UpdateInterval DAILY, UpdateInterval WEEKLY, Commit]"
    and d: "\<forall>x \<in> set (coin_values (working demo_values)).
              latest_in_bucket ''%Y-%W'' (coin_values (working demo_values)) x
              \<longrightarrow> x\<lparr>cv_interval := WEEKLY\<rparr> \<in> set (coin_values (durable w'))"
    by blast+
  from d demo_raw_hour_latest [of "''%Y-%W''"]
  have e: "?r\<lparr>cv_interval := WEEKLY\<rparr> \<in> set (coin_values (durable w'))"
    by (simp add: demo_values_fields demo_raw_hour_def)
  from c have c': "events w'
        = [UpdateInterval HOURLY, UpdateInterval DAILY, UpdateInterval WEEKLY, Commit]"
    by (simp add: new_events_def demo_values_fields)
  from a b run c' e show ?thesis
    by (simp add: w'_def [symmetric] demo_sample_def)
qed

theorem reclassification_counterexample:
  "map cv_interval demo_raw_hour = [MINUTELY, MINUTELY, MINUTELY]
   \<and> map (\<lambda>r. strftime ''%H'' (cv_datetime r)) demo_raw_hour = [''10'', ''10'', ''10'']
   \<and> map cv_interval (update_query ''%H'' HOURLY demo_raw_hour) = [HOURLY, HOURLY, HOURLY]
   \<and> fst (reclassify demo_values) = Inr ()
   \<and> map cv_interval (coin_values (durable (snd (reclassify demo_values))))
       = [WEEKLY, WEEKLY, WEEKLY]"
proof -
  define w' where "w' = snd (reclassify demo_values)"
  have "\<exists>w0. reclassify demo_values = (Inr (), w0)"
    by (rule reclassify_returns) (simp_all add: demo_values_fields)
  then have run: "reclassify demo_values = (Inr (), w')"
    unfolding w'_def by auto
  from reclassify_success [OF run]
  have a: "map cv_interval (coin_values (durable w')) = [WEEKLY, WEEKLY, WEEKLY]"
    by (simp add: demo_values_fields demo_raw_hour_def)
  have b: "map cv_interval (update_query ''%H'' HOURLY demo_raw_hour) = [HOURLY, HOURLY, HOURLY]"
    by (simp add: update_query_all demo_raw_hour_def)
  have c: "map (\<lambda>r. strftime ''%H'' (cv_datetime r)) demo_raw_hour = [''10'', ''10'', ''10'']"
    by (simp add: demo_raw_hour_def demo_sample_def directive_def demo_time_def pad2_def
        digit_char_def)
  have d: "map cv_interval demo_raw_hour = [MINUTELY, MINUTELY, MINUTELY]"
    by (simp add: demo_raw_hour_def demo_sample_def)
  from a b c d run show ?thesis
    by (simp add: w'_def [symmetric])
qed

text \<open>
  C6. The pruning step of \<^verbatim>\<open>prune_value_history\<close> runs after the reclassification and
  its commit. When it succeeds it has executed three deletions in this order: samples
  tagged minutely that are older than the clock minus one day, samples tagged hourly
  older than the clock minus one month, samples tagged daily older than the clock
  minus one year, the clock being read anew before each deletion. The table keeps
  exactly the samples that none of the three conditions covers; a sample tagged weekly
  is kept whatever its age. The enclosing session then commits the result.
\<close>

theorem pruning_after_reclassification:
  "(prune w1 = (Inr (), w2) \<longrightarrow>
      (\<exists>c1 c2 c3.
          minus_one_day (clock w1 (ticks w1)) = Inr c1
        \<and> minus_one_month (clock w1 (Suc (ticks w1))) = Inr c2
        \<and> minus_one_year (clock w1 (Suc (Suc (ticks w1)))) = Inr c3
        \<and> new_events w1 w2
            = [DeleteInterval MINUTELY c1, DeleteInterval HOURLY c2, DeleteInterval DAILY c3]
        \<and> coin_values (working w2)
            = filter (\<lambda>r. \<not> expired c1 c2 c3 r) (coin_values (working w1))
        \<and> (\<forall>r \<in> set (coin_values (working w1)).
              cv_interval r = WEEKLY \<longrightarrow> r \<in> set (coin_values (working w2)))))
   \<and> (prune_value_history w = Some (Inr (), w') \<longrightarrow>
      (\<exists>w1 w2. reclassify w = (Inr (), w1) \<and> prune w1 = (Inr (), w2)
         \<and> coin_values (durable w') = coin_values (working w2)
         \<and> new_events w2 w' = [Commit, Close]))"
proof (intro conjI impI)
  assume "prune w1 = (Inr (), w2)"
  from prune_success [OF this] obtain c1 c2 c3 where
    c: "minus_one_day (clock w1 (ticks w1)) = Inr c1"
      "minus_one_month (clock w1 (Suc (ticks w1))) = Inr c2"
      "minus_one_year (clock w1 (Suc (Suc (ticks w1)))) = Inr c3"
    and e: "events w2 = events w1 @ [DeleteInterval MINUTELY c1, DeleteInterval HOURLY c2,
                                    DeleteInterval DAILY c3]"
    and v: "coin_values (working w2)
              = filter (\<lambda>r. \<not> expired c1 c2 c3 r) (coin_values (working w1))"
    by blast
  have "\<forall>r \<in> set (coin_values (working w1)).
          cv_interval r = WEEKLY \<longrightarrow> r \<in> set (coin_values (working w2))"
    by (simp add: v expired_def)
  with c v new_events_append [OF e]
  show "\<exists>c1 c2 c3.
          minus_one_day (clock w1 (ticks w1)) = Inr c1
        \<and> minus_one_month (clock w1 (Suc (ticks w1))) = Inr c2
        \<and> minus_one_year (clock w1 (Suc (Suc (ticks w1)))) = Inr c3
        \<and> new_events w1 w2
            = [DeleteInterval MINUTELY c1, DeleteInterval HOURLY c2, DeleteInterval DAILY c3]
        \<and> coin_values (working w2)
            = filter (\<lambda>r. \<not> expired c1 c2 c3 r) (coin_values (working w1))
        \<and> (\<forall>r \<in> set (coin_values (working w1)).
              cv_interval r = WEEKLY \<longrightarrow> r \<in> set (coin_values (working w2)))"
    by blast
next
  assume "prune_value_history w = Some (Inr (), w')"
  from prune_value_history_success [OF this] obtain w1 w2 where
    "reclassify w = (Inr (), w1)" "prune w1 = (Inr (), w2)"
    "durable w' = working w2" "events w' = events w2 @ [Commit, Close]"
    by blast
  then show "\<exists>w1 w2. reclassify w = (Inr (), w1) \<and> prune w1 = (Inr (), w2)
         \<and> coin_values (durable w') = coin_values (working w2)
         \<and> new_events w2 w' = [Commit, Close]"
    by (auto simp: new_events_def)
qed

theorem pruning_after_reclassification_witness:
  "fst (prune demo_mixed) = Inr ()
   \<and> map cv_id (coin_values (working (snd (prune demo_mixed)))) = [2, 5, 6]
   \<and> events (snd (prune demo_mixed))
       = [DeleteInterval MINUTELY demo_day_ago, DeleteInterval HOURLY demo_month_ago,
          DeleteInterval DAILY demo_year_ago]
   \<and> fst (the (prune_value_history demo_values)) = Inr ()
   \<and> map cv_id (coin_values (durable (snd (the (prune_value_history demo_values)))))
       = [1, 2, 3]"
proof -
  define w2 where "w2 = snd (prune demo_mixed)"
  define w' where "w' = snd (the (prune_value_history demo_values))"
  note cm = demo_cutoffs [OF demo_mixed_fields(2,3)]
  note cv = demo_cutoffs [OF demo_values_fields(2,3)]
  have "\<exists>w0. prune demo_mixed = (Inr (), w0)"
    by (rule prune_returns [OF _ cm]) (simp add: demo_mixed_fields)
  then have run: "prune demo_mixed = (Inr (), w2)"
    unfolding w2_def by auto
  have "\<exists>w0. prune_value_history demo_values = Some (Inr (), w0)"
    by (rule prune_value_history_returns [OF _ _ _ cv]) (simp_all add: demo_values_fields)
  then have run': "prune_value_history demo_values = Some (Inr (), w')"
    unfolding w'_def by auto
  from pruning_after_reclassification [of demo_mixed w2] run
  have "new_events demo_mixed w2
          = [DeleteInterval MINUTELY demo_day_ago, DeleteInterval HOURLY demo_month_ago,
             DeleteInterval DAILY demo_year_ago]"
    and "coin_values (working w2)
          = filter (\<lambda>r. \<not> expired demo_day_ago demo_month_ago demo_year_ago r)
              (coin_values (working demo_mixed))"
    by (auto simp: cm)
  then have a: "events w2
          = [DeleteInterval MINUTELY demo_day_ago, DeleteInterval HOURLY demo_month_ago,
             DeleteInterval DAILY demo_year_ago]"
    and b: "map cv_id (coin_values (working w2)) = [2, 5, 6]"
    by (simp_all add: new_events_def demo_mixed_fields demo_mixed_expired demo_sample_def)
  from pruning_after_reclassification [of _ _ demo_values w'] run' obtain v1 v2 where
    r: "reclassify demo_values = (Inr (), v1)" and p: "prune v1 = (Inr (), v2)"
    and d: "coin_values (durable w') = coin_values (working v2)"
    by blast
  from reclassify_success [OF r] have v1: "coin_values (working v1)
      = map (\<lambda>r. r\<lparr>cv_interval := WEEKLY\<rparr>) demo_raw_hour"
    by (simp add: demo_values_fields)
  from pruning_after_reclassification [of v1 v2] p obtain c1 c2 c3 where
    "coin_values (working v2) = filter (\<lambda>r. \<not> expired c1 c2 c3 r) (coin_values (working v1))"
    by blast
  with v1 d have c: "map cv_id (coin_values (durable w')) = [1, 2, 3]"
    by (simp add: expired_def demo_raw_hour_def demo_sample_def)
  from run run' a b c show ?thesis
    by (simp add: w2_def [symmetric] w'_def [symmetric])
qed

text \<open>
  C7. After a \<^verbatim>\<open>set_coins\<close> that returns normally, for any two enabled coins of the
  durable table with different symbols there is a durable \<^verbatim>\<open>Pair\<close> row from the first
  to the second (and so, the two being arbitrary, one in each direction); if no two
  pair rows stood for the same ordered pair before the call, none do afterwards, and
  there is exactly one row for each such ordered pair; and running \<^verbatim>\<open>set_coins\<close>
  again with the same symbols returns normally and leaves the pair rows and the coin
  rows exactly as they are.
\<close>

theorem set_coins_pairs:
  assumes run: "set_coins symbols w = Some (Inr (), w')"
  shows
    "(\<forall>a \<in> set (coins (durable w')). \<forall>b \<in> set (coins (durable w')).
        enabled a \<and> enabled b \<and> symbol a \<noteq> symbol b \<longrightarrow>
          (symbol a, symbol b) \<in> pair_key ` set (pairs (durable w'))
          \<and> (distinct (map pair_key (pairs (working w))) \<longrightarrow>
               length (filter (\<lambda>p. pair_key p = (symbol a, symbol b)) (pairs (durable w'))) = 1))
   \<and> (distinct (map pair_key (pairs (working w)))
        \<longrightarrow> distinct (map pair_key (pairs (durable w'))))
   \<and> (\<exists>w''. set_coins symbols w' = Some (Inr (), w'')
          \<and> pairs (durable w'') = pairs (durable w')
          \<and> coins (durable w'') = coins (durable w'))"
proof (intro conjI ballI impI)
  note s = set_coins_success [OF run]
  let ?syms = "enabled_symbols (durable w')"
  from s have ps: "pairs (durable w') = ensure_pairs ?syms (pairs (working w))" by simp
  {
    assume d: "distinct (map pair_key (pairs (working w)))"
    with ps show "distinct (map pair_key (pairs (durable w')))"
      by (simp add: ensure_pairs_distinct)
  }
  {
    fix a b
    assume a: "a \<in> set (coins (durable w'))" and b: "b \<in> set (coins (durable w'))"
      and e: "enabled a \<and> enabled b \<and> symbol a \<noteq> symbol b"
    from a b e have "symbol a \<in> set ?syms" "symbol b \<in> set ?syms"
      by (auto simp: set_enabled_symbols)
    with e ps show k: "(symbol a, symbol b) \<in> pair_key ` set (pairs (durable w'))"
      by (auto simp: ensure_pairs_keys)
    assume d: "distinct (map pair_key (pairs (working w)))"
    with ps have "distinct (map pair_key (pairs (durable w')))"
      by (simp add: ensure_pairs_distinct)
    from exactly_one [OF this k]
    show "length (filter (\<lambda>p. pair_key p = (symbol a, symbol b)) (pairs (durable w'))) = 1" .
  }
  from run have store: "\<not> store_fault w OpCommit"
    by (auto simp: set_coins_def db_session_def session_commit_def sync_coins_fields
        split: option.splits sum.splits if_splits)
  from s have c1: "coins (durable w') = coins_after symbols (coins (working w))"
    and dd: "distinct (map symbol (coins (durable w')))"
    and wd: "working w' = durable w'" and sf: "store_fault w' = store_fault w"
    by blast+
  from dd have d1: "distinct (map symbol (coins_after symbols (coins (working w))))"
    by (simp only: c1)
  have again: "coins_after symbols (coins (working w')) = coins (durable w')"
    using coins_after_idem [OF d1] by (simp only: wd c1)
  have "\<exists>w''. set_coins symbols w' = Some (Inr (), w'')"
  proof (rule set_coins_returns)
    from store show "\<not> store_fault w' OpCommit" by (simp add: sf)
    from dd show "distinct (map symbol (coins_after symbols (coins (working w'))))"
      by (simp only: again)
  qed
  then obtain w'' where run2: "set_coins symbols w' = Some (Inr (), w'')" by blast
  note s2 = set_coins_success [OF run2]
  from s2 have "coins (durable w'') = coins_after symbols (coins (working w'))" by blast
  with again have c2: "coins (durable w'') = coins (durable w')" by simp
  then have "enabled_symbols (durable w'') = ?syms" by (simp add: enabled_symbols_def)
  moreover from s2 have "pairs (durable w'')
      = ensure_pairs (enabled_symbols (durable w'')) (pairs (working w'))" by blast
  ultimately have "pairs (durable w'') = ensure_pairs ?syms (ensure_pairs ?syms (pairs (working w)))"
    using ps by (simp add: wd)
  then have "pairs (durable w'') = pairs (durable w')"
    by (simp add: ensure_pairs_idem ps)
  with run2 c2
  show "\<exists>w''. set_coins symbols w' = Some (Inr (), w'')
          \<and> pairs (durable w'') = pairs (durable w')
          \<and> coins (durable w'') = coins (durable w')"
    by blast
qed

theorem set_coins_pairs_witness:
  "fst (the (set_coins demo_symbols demo_world)) = Inr ()
   \<and> map symbol (coins (durable (snd (the (set_coins demo_symbols demo_world)))))
       = [''ETH'', ''BTC'']
   \<and> (''BTC'', ''ETH'') \<in> pair_key ` set (pairs (durable
        (snd (the (set_coins demo_symbols demo_world)))))
   \<and> length (filter (\<lambda>p. pair_key p = (''BTC'', ''ETH''))
        (pairs (durable (snd (the (set_coins demo_symbols demo_world)))))) = 1
   \<and> length (filter (\<lambda>p. pair_key p = (''ETH'', ''BTC''))
        (pairs (durable (snd (the (set_coins demo_symbols demo_world)))))) = 1
   \<and> fst (the (set_coins demo_symbols (snd (the (set_coins demo_symbols demo_world))))) = Inr ()
   \<and> pairs (durable (snd (the (set_coins demo_symbols
        (snd (the (set_coins demo_symbols demo_world)))))))
       = pairs (durable (snd (the (set_coins demo_symbols demo_world))))"
proof -
  define w' where "w' = snd (the (set_coins demo_symbols demo_world))"
  have after: "coins_after demo_symbols (coins (working demo_world))
                 = [new_coin ''ETH'', new_coin ''BTC'']"
    by (simp add: coins_after_def disable_missing_def demo_symbols_def demo_world_def
        empty_database_def)
  have "\<exists>w0. set_coins demo_symbols demo_world = Some (Inr (), w0)"
    by (rule set_coins_returns) (simp_all add: after, simp_all add: demo_world_def new_coin_def)
  then have run: "set_coins demo_symbols demo_world = Some (Inr (), w')"
    unfolding w'_def by auto
  from set_coins_success [OF run] after
  have cs: "coins (durable w') = [new_coin ''ETH'', new_coin ''BTC'']"
    by simp
  have start: "distinct (map pair_key (pairs (working demo_world)))"
    by (simp add: demo_world_def empty_database_def)
  note th = set_coins_pairs [OF run]
  from th obtain w'' where again: "set_coins demo_symbols w' = Some (Inr (), w'')"
    and same: "pairs (durable w'') = pairs (durable w')"
    by blast
  from th start have
    "(''BTC'', ''ETH'') \<in> pair_key ` set (pairs (durable w'))"
    "length (filter (\<lambda>p. pair_key p = (''BTC'', ''ETH'')) (pairs (durable w'))) = 1"
    "length (filter (\<lambda>p. pair_key p = (''ETH'', ''BTC'')) (pairs (durable w'))) = 1"
    by (simp_all add: cs new_coin_def)
  with run again same cs show ?thesis
    by (simp add: w'_def [symmetric] new_coin_def)
qed

text \<open>
  C8. The gateway refuses the connection (the client is not connected and \<^verbatim>\<open>connect\<close>
  raises \<^verbatim>\<open>ConnectionError\<close>), the store accepts commits, and the argument is a
  \<^verbatim>\<open>Coin\<close> or the symbol of a coin the session can see. Then \<^verbatim>\<open>set_current_coin\<close>
  returns normally; the durable table of current coins is the one the session saw
  with one row added, which points to the coin and carries the time of the call; the
  only notification among the new events is the warning; nothing is emitted and nothing
  is rolled back.
\<close>

theorem set_current_coin_survives_relay_failure:
  assumes down: "\<not> client_connected w" "connect_refused w"
    and store: "\<not> store_fault w OpCommit" "distinct (map symbol (coins (working w)))"
    and known: "coin_known arg w"
  shows "\<exists>w' cc. set_current_coin arg w = Some (Inr (), w')
           \<and> current_coins (durable w') = current_coins (working w) @ [cc]
           \<and> cc_coin_id cc = arg_symbol arg
           \<and> cc_datetime cc = clock w (ticks w)
           \<and> filter is_notification (new_events w w') = [Warning]
           \<and> Rollback \<notin> set (new_events w w')
           \<and> Emit CurrentCoinT \<notin> set (new_events w w')"
proof -
  from get_coin_returns [OF known store] obtain c w1 where
    g: "get_coin arg w = Some (Inr c, w1)" and c: "symbol c = arg_symbol arg" by blast
  from get_coin_frame [OF g] obtain pre where
    fr: "working w1 = working w" "ticks w1 = ticks w" "clock w1 = clock w"
      "client_connected w1 = client_connected w" "connect_refused w1 = connect_refused w"
      "store_fault w1 = store_fault w"
    and pre: "events w1 = events w @ pre" "set pre \<subseteq> {Commit, Close}"
    by blast
  have "\<not> client_connected w1" "connect_refused w1" "\<not> store_fault w1 OpCommit"
    "distinct (map symbol (coins (working w1)))"
    using down store by (simp_all add: fr)
  from current_coin_session_relay_down [OF this, of c] obtain w' where
    run: "db_session (current_coin_body c) w1 = Some (Inr (), w')"
    and e: "events w' = events w1 @ [Warning, Commit, Close]"
    and cc: "current_coins (durable w')
               = current_coins (working w1)
                   @ [new_current_coin c (clock w1 (ticks w1))
                        (next_id (map cc_id (current_coins (working w1))))]"
    by blast
  from g run have "set_current_coin arg w = Some (Inr (), w')"
    by (simp add: set_current_coin_body)
  moreover from e pre have n: "new_events w w' = pre @ [Warning, Commit, Close]"
    by (simp add: new_events_def)
  from pre(2) have "filter is_notification pre = []" "Rollback \<notin> set pre"
    "Emit CurrentCoinT \<notin> set pre"
    by (induction pre) auto
  with n have "filter is_notification (new_events w w') = [Warning]"
    "Rollback \<notin> set (new_events w w')" "Emit CurrentCoinT \<notin> set (new_events w w')"
    by simp_all
  ultimately show ?thesis
    using cc c by (auto simp: fr new_current_coin_def)
qed

theorem set_current_coin_survives_relay_failure_witness:
  "fst (the (set_current_coin (BySymbol ''BTC'') demo_btc_world)) = Inr ()
   \<and> map cc_coin_id (current_coins (durable
        (snd (the (set_current_coin (BySymbol ''BTC'') demo_btc_world))))) = [''BTC'']
   \<and> map cc_datetime (current_coins (durable
        (snd (the (set_current_coin (BySymbol ''BTC'') demo_btc_world))))) = [demo_time 0]
   \<and> filter is_notification (new_events demo_btc_world
        (snd (the (set_current_coin (BySymbol ''BTC'') demo_btc_world)))) = [Warning]"
proof -
  have down: "\<not> client_connected demo_btc_world" "connect_refused demo_btc_world"
    and store: "\<not> store_fault demo_btc_world OpCommit"
      "distinct (map symbol (coins (working demo_btc_world)))"
    and known: "coin_known (BySymbol ''BTC'') demo_btc_world"
    and start: "current_coins (working demo_btc_world) = []"
      "clock demo_btc_world (ticks demo_btc_world) = demo_time 0"
    by (simp_all add: demo_btc_world_def demo_world_def empty_database_def new_coin_def
        coin_known_def)
  from set_current_coin_survives_relay_failure [OF down store known]
  obtain w' cc where
    run: "set_current_coin (BySymbol ''BTC'') demo_btc_world = Some (Inr (), w')"
    and rows: "current_coins (durable w') = [cc]" "cc_coin_id cc = ''BTC''"
      "cc_datetime cc = demo_time 0"
    and n: "filter is_notification (new_events demo_btc_world w') = [Warning]"
    by (auto simp: start arg_symbol_def)
  then show ?thesis by simp
qed

text \<open>
  C9. On a store that accepts the commit: when the session sees no row of current
  coins, \<^verbatim>\<open>get_current_coin\<close> returns \<^verbatim>\<open>None\<close>; when it sees rows, each pointing to
  an existing coin, it returns a coin of the coins table that is referenced by a row
  whose timestamp no other row exceeds, and after the call that coin is not attached
  to the session.
\<close>

theorem get_current_coin_latest:
  assumes store: "\<not> store_fault w OpCommit" "distinct (map symbol (coins (working w)))"
  shows "(current_coins (working w) = []
            \<longrightarrow> (\<exists>w'. get_current_coin w = Some (Inr None, w')))
       \<and> (current_coins (working w) \<noteq> []
            \<and> (\<forall>r \<in> set (current_coins (working w)).
                   cc_coin_id r \<in> symbol ` set (coins (working w)))
            \<longrightarrow> (\<exists>w' c cc. get_current_coin w = Some (Inr (Some c), w')
                   \<and> cc \<in> set (current_coins (working w))
                   \<and> (\<forall>r \<in> set (current_coins (working w)).
                          \<not> dt_less (cc_datetime cc) (cc_datetime r))
                   \<and> c \<in> set (coins (working w))
                   \<and> symbol c = cc_coin_id cc
                   \<and> CoinE (symbol c) \<notin> identity_map w'))"
proof (intro conjI impI)
  assume "current_coins (working w) = []"
  with store show "\<exists>w'. get_current_coin w = Some (Inr None, w')"
    by (simp add: get_current_coin_def first_by_datetime_desc_def db_session_def
        session_commit_def)
next
  assume h: "current_coins (working w) \<noteq> []
      \<and> (\<forall>r \<in> set (current_coins (working w)).
             cc_coin_id r \<in> symbol ` set (coins (working w)))"
  then obtain cc where first: "first_by_datetime_desc (current_coins (working w)) = Some cc"
    using first_by_datetime_desc_None [of "current_coins (working w)"] by auto
  note cc = first_by_datetime_desc_Some [OF first]
  with h have "cc_coin_id cc \<in> symbol ` set (coins (working w))" by blast
  from find_symbol [OF this] obtain c where
    c: "find (\<lambda>r. symbol r = cc_coin_id cc) (coins (working w)) = Some c"
      "symbol c = cc_coin_id cc"
    by blast
  from find_symbol_member [OF c(1)] have mem: "c \<in> set (coins (working w))" by simp
  from first c store have
    "\<exists>w'. get_current_coin w = Some (Inr (Some c), w') \<and> identity_map w' = {}"
    by (simp add: get_current_coin_def db_session_def session_commit_def session_close_def
        emit_event_def session_attach_def session_expunge_def Let_def)
  with cc c mem
  show "\<exists>w' c cc. get_current_coin w = Some (Inr (Some c), w')
          \<and> cc \<in> set (current_coins (working w))
          \<and> (\<forall>r \<in> set (current_coins (working w)).
                 \<not> dt_less (cc_datetime cc) (cc_datetime r))
          \<and> c \<in> set (coins (working w))
          \<and> symbol c = cc_coin_id cc
          \<and> CoinE (symbol c) \<notin> identity_map w'"
    by (metis empty_iff)
qed

theorem get_current_coin_latest_witness:
  "fst (the (get_current_coin demo_world)) = Inr None
   \<and> fst (the (get_current_coin demo_history)) = Inr (Some (new_coin ''ETH''))
   \<and> CoinE ''ETH'' \<notin> identity_map (snd (the (get_current_coin demo_history)))"
proof -
  have s0: "\<not> store_fault demo_world OpCommit"
    "distinct (map symbol (coins (working demo_world)))"
    "current_coins (working demo_world) = []"
    by (simp_all add: demo_world_def empty_database_def)
  have s1: "\<not> store_fault demo_history OpCommit"
    "distinct (map symbol (coins (working demo_history)))"
    by (simp_all add: demo_history_def demo_world_def empty_database_def new_coin_def)
  have rows: "current_coins (working demo_history) =
          [\<lparr>cc_id = 1, cc_coin_id = ''BTC'', cc_datetime = demo_time 0\<rparr>,
           \<lparr>cc_id = 2, cc_coin_id = ''ETH'', cc_datetime = demo_time 5\<rparr>,
           \<lparr>cc_id = 3, cc_coin_id = ''BTC'', cc_datetime = demo_time 3\<rparr>]"
    and cs: "coins (working demo_history) = [new_coin ''BTC'', new_coin ''ETH'']"
    by (simp_all add: demo_history_def demo_world_def empty_database_def)
  from get_current_coin_latest [OF s0(1,2)] s0(3)
  have a: "fst (the (get_current_coin demo_world)) = Inr None" by auto
  have refs: "current_coins (working demo_history) \<noteq> []
      \<and> (\<forall>r \<in> set (current_coins (working demo_history)).
             cc_coin_id r \<in> symbol ` set (coins (working demo_history)))"
    by (simp add: rows cs new_coin_def)
  from get_current_coin_latest [OF s1] refs obtain w' c cc where
    run: "get_current_coin demo_history = Some (Inr (Some c), w')"
    and cc: "cc \<in> set (current_coins (working demo_history))"
    and top: "\<forall>r \<in> set (current_coins (working demo_history)).
                \<not> dt_less (cc_datetime cc) (cc_datetime r)"
    and c: "c \<in> set (coins (working demo_history))" "symbol c = cc_coin_id cc"
    and det: "CoinE (symbol c) \<notin> identity_map w'"
    by blast
  from cc top have "cc_coin_id cc = ''ETH''"
    by (auto simp: rows dt_less_demo_time)
  with c have "c = new_coin ''ETH''" by (auto simp: cs new_coin_def)
  with run det a show ?thesis by (simp add: new_coin_def)
qed



end
